theory Spec2Isabelle
  imports Complex_Main
begin

section \<open>JavaScript values used by the state-space model\<close>

text \<open>
  A slot of a \<^verbatim>\<open>number[]\<close> holds a finite number, one of the three non-finite
  numbers, or (after an out-of-range index read) \<^verbatim>\<open>undefined\<close>. Finite numbers
  are modelled as reals and their sums and products are exact: the rounding of IEEE-754
  doubles and the overflow of a finite result to infinity are not modelled, and zero has
  no sign (no operation of the model tells \<open>-0\<close> from \<open>0\<close>). The order of the additions
  and multiplications is the order of the source, so what is proved of the loops holds
  for any arithmetic; the concrete values below are those of the exact arithmetic.
\<close>

datatype jsnum = Num real | PosInf | NegInf | NaN | Undefined

text \<open>\<^verbatim>\<open>a + b\<close> on numbers; \<^verbatim>\<open>undefined\<close> converts to NaN.\<close>

fun js_add :: "jsnum \<Rightarrow> jsnum \<Rightarrow> jsnum" where
  "js_add (Num a) (Num b) = Num (a + b)"
| "js_add (Num a) PosInf = PosInf"
| "js_add (Num a) NegInf = NegInf"
| "js_add PosInf (Num b) = PosInf"
| "js_add PosInf PosInf = PosInf"
| "js_add NegInf (Num b) = NegInf"
| "js_add NegInf NegInf = NegInf"
| "js_add _ _ = NaN"

text \<open>\<^verbatim>\<open>a * b\<close> on numbers; infinity times zero is NaN.\<close>

fun js_mul :: "jsnum \<Rightarrow> jsnum \<Rightarrow> jsnum" where
  "js_mul (Num a) (Num b) = Num (a * b)"
| "js_mul (Num a) PosInf = (if a = 0 then NaN else if 0 < a then PosInf else NegInf)"
| "js_mul (Num a) NegInf = (if a = 0 then NaN else if 0 < a then NegInf else PosInf)"
| "js_mul PosInf (Num b) = (if b = 0 then NaN else if 0 < b then PosInf else NegInf)"
| "js_mul NegInf (Num b) = (if b = 0 then NaN else if 0 < b then NegInf else PosInf)"
| "js_mul PosInf PosInf = PosInf"
| "js_mul PosInf NegInf = NegInf"
| "js_mul NegInf PosInf = NegInf"
| "js_mul NegInf NegInf = PosInf"
| "js_mul _ _ = NaN"

text \<open>\<^verbatim>\<open>row[k]\<close>: an index past the end reads \<^verbatim>\<open>undefined\<close>.\<close>

definition js_index :: "jsnum list \<Rightarrow> nat \<Rightarrow> jsnum" where
  "js_index row k = (if k < length row then row ! k else Undefined)"

text \<open>\<^verbatim>\<open>M[k]\<close> for an array of rows: \<open>None\<close> is \<^verbatim>\<open>undefined\<close>, and reading a
  property of it throws a TypeError.\<close>

definition js_row :: "jsnum list list \<Rightarrow> nat \<Rightarrow> jsnum list option" where
  "js_row M k = (if k < length M then Some (M ! k) else None)"

datatype js_error =
    Error string
  | TypeError
  | RangeError
  | CryptoError

section \<open>Matrix helpers of \<^verbatim>\<open>StateSpaceModel\<close>\<close>

text \<open>The loop \<^verbatim>\<open>for (k = 0; k < colsA; k++) result[i][j] += A[i][k] * B[k][j]\<close>,
  over the remaining indices \<open>ks\<close>, with the accumulator \<open>acc\<close>.\<close>

fun inner_loop :: "jsnum list \<Rightarrow> jsnum list list \<Rightarrow> nat \<Rightarrow> nat list \<Rightarrow> jsnum \<Rightarrow> js_error + jsnum" where
  "inner_loop Ai B j [] acc = Inr acc"
| "inner_loop Ai B j (k # ks) acc =
     (case js_row B k of
        None \<Rightarrow> Inl TypeError
      | Some Bk \<Rightarrow> inner_loop Ai B j ks (js_add acc (js_mul (js_index Ai k) (js_index Bk j))))"

text \<open>A \<^verbatim>\<open>for\<close> loop whose body may throw: the first exception ends it.\<close>

fun for_each :: "('a \<Rightarrow> js_error + 'b) \<Rightarrow> 'a list \<Rightarrow> js_error + 'b list" where
  "for_each f [] = Inr []"
| "for_each f (x # xs) =
     (case f x of
        Inl e \<Rightarrow> Inl e
      | Inr y \<Rightarrow> (case for_each f xs of Inl e \<Rightarrow> Inl e | Inr ys \<Rightarrow> Inr (y # ys)))"

definition matrixMultiply :: "jsnum list list \<Rightarrow> jsnum list list \<Rightarrow> js_error + jsnum list list" where
  "matrixMultiply A B =
     (case js_row A 0 of
        None \<Rightarrow> Inl TypeError
      | Some A0 \<Rightarrow>
          (case js_row B 0 of
             None \<Rightarrow> Inl TypeError
           | Some B0 \<Rightarrow>
               (let rowsA = length A; colsA = length A0; colsB = length B0 in
                for_each
                  (\<lambda>i. for_each (\<lambda>j. inner_loop (A ! i) B j [0..<colsA] (Num 0)) [0..<colsB])
                  [0..<rowsA])))"

definition vectorToMatrix :: "jsnum list \<Rightarrow> jsnum list list" where
  "vectorToMatrix v = map (\<lambda>x. [x]) v"

definition matrixToVector :: "jsnum list list \<Rightarrow> jsnum list" where
  "matrixToVector m = map (\<lambda>row. js_index row 0) m"

text \<open>\<^verbatim>\<open>X.map((row, i) => [row[0] + Y[i][0]])\<close>: a missing row \<^verbatim>\<open>Y[i]\<close> throws.\<close>

definition add_first_columns :: "jsnum list list \<Rightarrow> jsnum list list \<Rightarrow> js_error + jsnum list list" where
  "add_first_columns X Y =
     for_each
       (\<lambda>i. case js_row Y i of
               None \<Rightarrow> Inl TypeError
             | Some Yi \<Rightarrow> Inr [js_add (js_index (X ! i) 0) (js_index Yi 0)])
       [0..<length X]"

section \<open>JSON text\<close>

text \<open>
  Strings are lists of bytes (the UTF-8 text that \<^verbatim>\<open>Hash.update\<close> hashes). A JSON
  value is what \<^verbatim>\<open>JSON.stringify\<close> can write: a number here is finite, since
  \<^verbatim>\<open>JSON.stringify\<close> writes NaN, both infinities and an \<^verbatim>\<open>undefined\<close> array slot
  as \<^verbatim>\<open>null\<close>. An object is the list of its properties in enumeration order.
\<close>

datatype json =
    JNull
  | JBool bool
  | JNumber real
  | JString string
  | JArray "json list"
  | JObject "(string \<times> json) list"

definition digit_char :: "nat \<Rightarrow> char" where
  "digit_char n = ''0123456789abcdef'' ! n"

function show_nat :: "nat \<Rightarrow> string" where
  "show_nat n = (if n < 10 then [digit_char n] else show_nat (n div 10) @ [digit_char (n mod 10)])"
  by pat_completeness auto
termination
  by (relation "measure (\<lambda>n. n)") auto

declare show_nat.simps [simp del]

definition show_int :: "int \<Rightarrow> string" where
  "show_int i = (if i < 0 then CHR ''-'' # show_nat (nat (- i)) else show_nat (nat i))"

text \<open>
  \<^verbatim>\<open>Number.prototype.toString\<close> on a finite number: an integer below \<open>10\<^sup>2\<^sup>1\<close> in
  magnitude is written in decimal digits; any other number is written by the runtime's
  shortest-digits algorithm, which is the parameter \<open>fmt\<close>.
\<close>

definition Number_toString :: "(real \<Rightarrow> string) \<Rightarrow> real \<Rightarrow> string" where
  "Number_toString fmt x =
     (if real_of_int \<lfloor>x\<rfloor> = x \<and> \<bar>x\<bar> < 10 ^ 21 then show_int \<lfloor>x\<rfloor> else fmt x)"

text \<open>\<^verbatim>\<open>QuoteJSONString\<close>: the quote, the backslash and the control characters are escaped.\<close>

definition JSON_escape_char :: "char \<Rightarrow> string" where
  "JSON_escape_char c =
     (if c = CHR 0x22 then [CHR 0x5C, CHR 0x22]
      else if c = CHR 0x5C then [CHR 0x5C, CHR 0x5C]
      else if c = CHR 0x08 then [CHR 0x5C, CHR ''b'']
      else if c = CHR 0x0C then [CHR 0x5C, CHR ''f'']
      else if c = CHR 0x0A then [CHR 0x5C, CHR ''n'']
      else if c = CHR 0x0D then [CHR 0x5C, CHR ''r'']
      else if c = CHR 0x09 then [CHR 0x5C, CHR ''t'']
      else if (of_char c :: nat) < 32
        then [CHR 0x5C, CHR ''u'', CHR ''0'', CHR ''0'',
              digit_char (of_char c div 16), digit_char (of_char c mod 16)]
      else [c])"

definition JSON_quote :: "string \<Rightarrow> string" where
  "JSON_quote s = CHR 0x22 # concat (map JSON_escape_char s) @ [CHR 0x22]"

fun join_comma :: "string list \<Rightarrow> string" where
  "join_comma [] = []"
| "join_comma [x] = x"
| "join_comma (x # y # ys) = x @ CHR '','' # join_comma (y # ys)"

fun JSON_stringify :: "(real \<Rightarrow> string) \<Rightarrow> json \<Rightarrow> string" where
  "JSON_stringify fmt JNull = ''null''"
| "JSON_stringify fmt (JBool b) = (if b then ''true'' else ''false'')"
| "JSON_stringify fmt (JNumber x) = Number_toString fmt x"
| "JSON_stringify fmt (JString s) = JSON_quote s"
| "JSON_stringify fmt (JArray vs) = CHR ''['' # join_comma (map (JSON_stringify fmt) vs) @ '']''"
| "JSON_stringify fmt (JObject ps) =
     CHR ''{'' # join_comma (map (\<lambda>p. JSON_quote (fst p) @ CHR '':'' # JSON_stringify fmt (snd p)) ps) @ ''}''"

text \<open>A number as an array element, and as the value of a property (a property whose
  value is \<^verbatim>\<open>undefined\<close> is left out of the object).\<close>

definition json_of_number :: "jsnum \<Rightarrow> json" where
  "json_of_number x = (case x of Num r \<Rightarrow> JNumber r | _ \<Rightarrow> JNull)"

definition json_of_array :: "jsnum list \<Rightarrow> json" where
  "json_of_array xs = JArray (map json_of_number xs)"

definition json_property :: "string \<Rightarrow> jsnum \<Rightarrow> (string \<times> json) list" where
  "json_property k x = (if x = Undefined then [] else [(k, json_of_number x)])"

section \<open>The runtime's library\<close>

text \<open>
  The functions of Node's \<^verbatim>\<open>crypto\<close> module and the number formatter are parameters of
  the model: \<open>sha256_hex s\<close> is \<^verbatim>\<open>createHash('sha256').update(s).digest('hex')\<close>;
  \<open>sign_base64 key data\<close> is \<^verbatim>\<open>createSign('SHA256')\<close> fed \<open>data\<close> and signed with
  \<open>key\<close>, \<open>None\<close> when the call throws; \<open>verify_base64 key data sig\<close> is
  \<^verbatim>\<open>createVerify('SHA256')\<close> fed \<open>data\<close> and checked against \<open>sig\<close>, \<open>None\<close> when the
  call throws; \<open>numberToString\<close> writes the numbers that are not integers.
\<close>

record node_env =
  sha256_hex :: "string \<Rightarrow> string"
  sign_base64 :: "string \<Rightarrow> string \<Rightarrow> string option"
  verify_base64 :: "string \<Rightarrow> string \<Rightarrow> string \<Rightarrow> bool option"
  numberToString :: "real \<Rightarrow> string"

section \<open>\<^verbatim>\<open>StateSpaceModel\<close>\<close>

record SSMConfig =
  stateSize :: int
  inputSize :: int
  outputSize :: int
  A :: "jsnum list list"
  B :: "jsnum list list"
  C :: "jsnum list list"
  D :: "jsnum list list"

record StateTransition =
  prevState :: "jsnum list"
  nextState :: "jsnum list"
  input :: "jsnum list"
  "output" :: "jsnum list"
  timestamp :: jsnum
  hash :: string
  signature :: string

record KeyPair =
  publicKey :: string
  privateKey :: string

record StateSpaceModel =
  config :: SSMConfig
  currentState :: "jsnum list"
  keyPair :: KeyPair

text \<open>
  The constructor. \<open>keys\<close> is the pair that \<^verbatim>\<open>generateKeyPair\<close> returns. The sizes are
  integers here (a fractional size is not modelled); \<^verbatim>\<open>new Array(n)\<close> throws a RangeError
  unless \<open>0 \<le> n < 2\<^sup>3\<^sup>2\<close>.
\<close>

definition new_StateSpaceModel :: "KeyPair \<Rightarrow> SSMConfig \<Rightarrow> js_error + StateSpaceModel" where
  "new_StateSpaceModel keys cfg =
     (if 0 \<le> stateSize cfg \<and> stateSize cfg < 2 ^ 32
      then Inr \<lparr>config = cfg,
                currentState = replicate (nat (stateSize cfg)) (Num 0),
                keyPair = keys\<rparr>
      else Inl RangeError)"

definition hashState :: "node_env \<Rightarrow> json \<Rightarrow> string" where
  "hashState env data = sha256_hex env (JSON_stringify (numberToString env) data)"

definition signData :: "node_env \<Rightarrow> StateSpaceModel \<Rightarrow> string \<Rightarrow> string option" where
  "signData env m data = sign_base64 env (privateKey (keyPair m)) data"

text \<open>The object literal \<^verbatim>\<open>{prevState, nextState, input, output, timestamp}\<close>: its
  properties as \<^verbatim>\<open>JSON.stringify\<close> writes them, and the object.\<close>

definition transitionData_properties ::
  "jsnum list \<Rightarrow> jsnum list \<Rightarrow> jsnum list \<Rightarrow> jsnum list \<Rightarrow> jsnum \<Rightarrow> (string \<times> json) list" where
  "transitionData_properties prev next inp out ts =
     [(''prevState'', json_of_array prev),
      (''nextState'', json_of_array next),
      (''input'', json_of_array inp),
      (''output'', json_of_array out)] @ json_property ''timestamp'' ts"

definition transitionData :: "jsnum list \<Rightarrow> jsnum list \<Rightarrow> jsnum list \<Rightarrow> jsnum list \<Rightarrow> jsnum \<Rightarrow> json" where
  "transitionData prev next inp out ts = JObject (transitionData_properties prev next inp out ts)"

definition size_mismatch_message :: "int \<Rightarrow> nat \<Rightarrow> string" where
  "size_mismatch_message expected got =
     ''Input size mismatch: expected '' @ show_int expected @ '', got '' @ show_nat got"

text \<open>
  \<^verbatim>\<open>transition(input)\<close>. \<open>now\<close> is the value of \<^verbatim>\<open>Date.now()\<close>. The result pairs what
  the call returns or throws with the model object after the call: the assignment to
  \<^verbatim>\<open>this.currentState\<close> comes before the hash and the signature, so a throwing
  signature leaves the new state in place.
\<close>

definition transition ::
  "node_env \<Rightarrow> int \<Rightarrow> StateSpaceModel \<Rightarrow> jsnum list \<Rightarrow> (js_error + StateTransition) \<times> StateSpaceModel" where
  "transition env now m inp =
     (if int (length inp) \<noteq> inputSize (config m)
      then (Inl (Error (size_mismatch_message (inputSize (config m)) (length inp))), m)
      else
        let prev = currentState m;
            stateMatrix = vectorToMatrix (currentState m);
            inputMatrix = vectorToMatrix inp
        in
        case matrixMultiply (A (config m)) stateMatrix of Inl e \<Rightarrow> (Inl e, m) | Inr Ax \<Rightarrow>
        case matrixMultiply (B (config m)) inputMatrix of Inl e \<Rightarrow> (Inl e, m) | Inr Bu \<Rightarrow>
        case add_first_columns Ax Bu of Inl e \<Rightarrow> (Inl e, m) | Inr nextStateMatrix \<Rightarrow>
        let next = matrixToVector nextStateMatrix in
        case matrixMultiply (C (config m)) stateMatrix of Inl e \<Rightarrow> (Inl e, m) | Inr Cx \<Rightarrow>
        case matrixMultiply (D (config m)) inputMatrix of Inl e \<Rightarrow> (Inl e, m) | Inr Du \<Rightarrow>
        case add_first_columns Cx Du of Inl e \<Rightarrow> (Inl e, m) | Inr outputMatrix \<Rightarrow>
        let out = matrixToVector outputMatrix;
            m' = m\<lparr>currentState := next\<rparr>;
            ts = Num (of_int now);
            h = hashState env (transitionData prev next inp out ts)
        in
        case signData env m' h of
          None \<Rightarrow> (Inl CryptoError, m')
        | Some sg \<Rightarrow>
            (Inr \<lparr>prevState = prev, nextState = next, input = inp, output = out,
                  timestamp = ts, hash = h, signature = sg\<rparr>, m'))"

text \<open>
  The argument of \<^verbatim>\<open>verifyTransition\<close> is an object of the caller: its \<^verbatim>\<open>hash\<close> and
  \<^verbatim>\<open>signature\<close> properties, and its remaining properties (the rest object \<^verbatim>\<open>data\<close>), in
  the enumeration order of the object, each with the JSON value that \<^verbatim>\<open>JSON.stringify\<close>
  writes for it. \<open>as_object\<close> is the object \<^verbatim>\<open>{...transitionData, hash, signature}\<close> that
  \<^verbatim>\<open>transition\<close> builds.
\<close>

record TransitionObject =
  object_hash :: string
  object_signature :: string
  object_rest :: "(string \<times> json) list"

definition as_object :: "StateTransition \<Rightarrow> TransitionObject" where
  "as_object t =
     \<lparr>object_hash = hash t,
      object_signature = signature t,
      object_rest =
        transitionData_properties (prevState t) (nextState t) (input t) (output t) (timestamp t)\<rparr>"

text \<open>
  \<^verbatim>\<open>verifyTransition(transition)\<close>: the hash of the rest object is compared with the
  \<^verbatim>\<open>hash\<close> property; an exception of the verifier is caught and answered with
  \<^verbatim>\<open>false\<close>.
\<close>

definition verifyTransition :: "node_env \<Rightarrow> StateSpaceModel \<Rightarrow> TransitionObject \<Rightarrow> bool" where
  "verifyTransition env m obj =
     (let computedHash = hashState env (JObject (object_rest obj))
      in if computedHash \<noteq> object_hash obj then False
         else (case verify_base64 env (publicKey (keyPair m)) (object_hash obj)
                      (object_signature obj) of
                 None \<Rightarrow> False
               | Some ok \<Rightarrow> ok))"

definition getState :: "StateSpaceModel \<Rightarrow> jsnum list" where
  "getState m = currentState m"

definition reset :: "StateSpaceModel \<Rightarrow> js_error + StateSpaceModel" where
  "reset m =
     (if 0 \<le> stateSize (config m) \<and> stateSize (config m) < 2 ^ 32
      then Inr (m\<lparr>currentState := replicate (nat (stateSize (config m))) (Num 0)\<rparr>)
      else Inl RangeError)"

definition getPublicKey :: "StateSpaceModel \<Rightarrow> string" where
  "getPublicKey m = publicKey (keyPair m)"

definition createDefaultSSMConfig :: SSMConfig where
  "createDefaultSSMConfig =
     \<lparr>stateSize = 2, inputSize = 1, outputSize = 1,
      A = [[Num 0.95, Num 0.05], [Num 0.05, Num 0.95]],
      B = [[Num 1.0], [Num 0.5]],
      C = [[Num 1.0, Num 0.5]],
      D = [[Num 0.1]]\<rparr>"

text \<open>A replay: the calls \<^verbatim>\<open>transition(input)\<close> made one after the other on one model
  object, each with the clock value it reads; the results are kept in order.\<close>

fun replay ::
  "node_env \<Rightarrow> StateSpaceModel \<Rightarrow> (int \<times> jsnum list) list \<Rightarrow> (js_error + StateTransition) list \<times> StateSpaceModel" where
  "replay env m [] = ([], m)"
| "replay env m (step # steps) =
     (let (r, m') = transition env (fst step) m (snd step);
          (rs, m'') = replay env m' steps
      in (r # rs, m''))"

text \<open>What a determinism check compares: the three vectors of a record (or the exception).\<close>

definition observation :: "js_error + StateTransition \<Rightarrow> js_error + (jsnum list \<times> jsnum list \<times> jsnum list)" where
  "observation r = (case r of Inl e \<Rightarrow> Inl e | Inr t \<Rightarrow> Inr (prevState t, nextState t, output t))"

section \<open>The audit log\<close>

record AuditLog =
  event_type :: string
  event_data :: string
  event_hash :: string
  prev_log_hash :: "string option"
  created_at :: int

text \<open>The table \<^verbatim>\<open>audit_logs\<close>: its rows in insertion order (the row ids ascend).
  The other tables play no part in the audit chain.\<close>

record AxiomDatabase =
  audit_logs :: "AuditLog list"

definition createAuditLog :: "AxiomDatabase \<Rightarrow> AuditLog \<Rightarrow> AxiomDatabase" where
  "createAuditLog db entry = db\<lparr>audit_logs := audit_logs db @ [entry]\<rparr>"

text \<open>
  \<^verbatim>\<open>ORDER BY created_at DESC LIMIT 1\<close>: a row with the greatest \<^verbatim>\<open>created_at\<close>. SQL
  leaves the choice among rows with equal \<^verbatim>\<open>created_at\<close> open; the model takes the
  one inserted first, which is what a scan of the index \<^verbatim>\<open>idx_logs_created\<close> meets first.
\<close>

fun order_by_created_at_desc_limit_1 :: "AuditLog list \<Rightarrow> AuditLog option" where
  "order_by_created_at_desc_limit_1 [] = None"
| "order_by_created_at_desc_limit_1 (r # rs) =
     (case order_by_created_at_desc_limit_1 rs of
        None \<Rightarrow> Some r
      | Some r' \<Rightarrow> if created_at r < created_at r' then Some r' else Some r)"

text \<open>\<^verbatim>\<open>result?.event_hash || null\<close>: no row, or an empty hash, gives \<^verbatim>\<open>null\<close>.\<close>

definition getLastAuditLogHash :: "AxiomDatabase \<Rightarrow> string option" where
  "getLastAuditLogHash db =
     (case order_by_created_at_desc_limit_1 (audit_logs db) of
        None \<Rightarrow> None
      | Some r \<Rightarrow> if event_hash r = [] then None else Some (event_hash r))"

text \<open>The hash expression of \<^verbatim>\<open>logAuditEvent\<close>:
  \<^verbatim>\<open>sha256(eventType + dataString + (prevHash || ''))\<close>.\<close>

definition eventHash :: "node_env \<Rightarrow> string \<Rightarrow> string \<Rightarrow> string option \<Rightarrow> string" where
  "eventHash env eventType dataString prevHash =
     sha256_hex env (eventType @ dataString @ (case prevHash of None \<Rightarrow> [] | Some h \<Rightarrow> h))"

text \<open>\<^verbatim>\<open>logAuditEvent(eventType, eventData)\<close>; \<open>now\<close> is the value of \<^verbatim>\<open>Date.now()\<close>.
  The payload is modelled by the JSON value it is written as.\<close>

definition logAuditEvent :: "node_env \<Rightarrow> int \<Rightarrow> string \<Rightarrow> json \<Rightarrow> AxiomDatabase \<Rightarrow> AxiomDatabase" where
  "logAuditEvent env now eventType eventData db =
     (let prevHash = getLastAuditLogHash db;
          dataString = JSON_stringify (numberToString env) eventData
      in createAuditLog db
           \<lparr>event_type = eventType,
            event_data = dataString,
            event_hash = eventHash env eventType dataString prevHash,
            prev_log_hash = prevHash,
            created_at = now\<rparr>)"

definition empty_database :: AxiomDatabase where
  "empty_database = \<lparr>audit_logs = []\<rparr>"

text \<open>Successive appends: each step is a clock value, an event type and a payload.\<close>

fun log_events :: "node_env \<Rightarrow> AxiomDatabase \<Rightarrow> (int \<times> string \<times> json) list \<Rightarrow> AxiomDatabase" where
  "log_events env db [] = db"
| "log_events env db (ev # evs) =
     log_events env (logAuditEvent env (fst ev) (fst (snd ev)) (snd (snd ev)) db) evs"

text \<open>The chain invariant of the specification: every entry after the first names the
  hash of the entry created just before it.\<close>

fun chain_linked :: "AuditLog list \<Rightarrow> bool" where
  "chain_linked [] = True"
| "chain_linked [e] = True"
| "chain_linked (e1 # e2 # es) = (prev_log_hash e2 = Some (event_hash e1) \<and> chain_linked (e2 # es))"

section \<open>The specification's words\<close>

text \<open>Row-by-column multiplication of a matrix with a vector, and the sum of two
  vectors, in the arithmetic of the numbers above.\<close>

definition dot :: "jsnum list \<Rightarrow> jsnum list \<Rightarrow> jsnum" where
  "dot row v = foldl js_add (Num 0) (map2 js_mul row v)"

definition mat_vec :: "jsnum list list \<Rightarrow> jsnum list \<Rightarrow> jsnum list" where
  "mat_vec M v = map (\<lambda>row. dot row v) M"

definition vec_add :: "jsnum list \<Rightarrow> jsnum list \<Rightarrow> jsnum list" where
  "vec_add a b = map2 js_add a b"

text \<open>\<open>nextState = A\<cdot>currentState + B\<cdot>input\<close> and \<open>output = C\<cdot>currentState + D\<cdot>input\<close>,
  both from the state the model has before the call.\<close>

definition spec_nextState :: "StateSpaceModel \<Rightarrow> jsnum list \<Rightarrow> jsnum list" where
  "spec_nextState m inp =
     vec_add (mat_vec (A (config m)) (currentState m)) (mat_vec (B (config m)) inp)"

definition spec_output :: "StateSpaceModel \<Rightarrow> jsnum list \<Rightarrow> jsnum list" where
  "spec_output m inp =
     vec_add (mat_vec (C (config m)) (currentState m)) (mat_vec (D (config m)) inp)"

text \<open>The shapes the specification's data model asks of a configuration, with every
  size at least one: \<open>A\<close> is stateSize by stateSize, \<open>B\<close> stateSize by inputSize, \<open>C\<close>
  outputSize by stateSize and \<open>D\<close> outputSize by inputSize.\<close>

definition has_shape :: "jsnum list list \<Rightarrow> int \<Rightarrow> int \<Rightarrow> bool" where
  "has_shape M r c = (int (length M) = r \<and> list_all (\<lambda>row. int (length row) = c) M)"

definition well_shaped :: "SSMConfig \<Rightarrow> bool" where
  "well_shaped cfg =
     (0 < stateSize cfg \<and> 0 < inputSize cfg \<and> 0 < outputSize cfg \<and>
      has_shape (A cfg) (stateSize cfg) (stateSize cfg) \<and>
      has_shape (B cfg) (stateSize cfg) (inputSize cfg) \<and>
      has_shape (C cfg) (outputSize cfg) (stateSize cfg) \<and>
      has_shape (D cfg) (outputSize cfg) (inputSize cfg))"

section \<open>The signature calls on the generated key pair\<close>

text \<open>
  The key pair of a model is the one \<^verbatim>\<open>generateKeyPairSync('ed25519', ...)\<close> returns.
  Node's streaming \<^verbatim>\<open>Sign\<close> and \<^verbatim>\<open>Verify\<close> objects do not take keys of that type (Ed25519
  is signed in one shot, by \<^verbatim>\<open>crypto.sign(null, data, key)\<close>): \<^verbatim>\<open>sign.sign(privateKey)\<close>
  and \<^verbatim>\<open>verify.verify(publicKey, signature)\<close> throw. A runtime rejects a key pair when
  both calls throw on it, whatever the data.
\<close>

definition rejects_key_pair :: "node_env \<Rightarrow> KeyPair \<Rightarrow> bool" where
  "rejects_key_pair env keys =
     ((\<forall>data. sign_base64 env (privateKey keys) data = None) \<and>
      (\<forall>data sg. verify_base64 env (publicKey keys) data sg = None))"

text \<open>Whether the signing call throws does not depend on which of two key pairs it is
  given, nor on the data: both pairs have the same type.\<close>

definition signer_treats_alike :: "node_env \<Rightarrow> KeyPair \<Rightarrow> KeyPair \<Rightarrow> bool" where
  "signer_treats_alike env keys keys' =
     (\<forall>data data'. (sign_base64 env (privateKey keys) data = None) =
                    (sign_base64 env (privateKey keys') data' = None))"

section \<open>A runtime for concrete runs\<close>

text \<open>
  Concrete runs need concrete library functions. In this runtime the signing and the
  verifying call throw, as Node's do on the generated Ed25519 key pair; the hash is a
  stand-in without collisions (the text itself); \<open>js_number_text\<close> writes a number
  as \<^verbatim>\<open>Number.prototype.toString\<close> does when its decimal expansion ends within 17
  digits: plain digits while the decimal point stays within 21 digits before and 6
  zeros after it, and the exponent notation otherwise. \<open>decimal_exponent a\<close> is
  the \<open>n\<close> with \<open>10\<^sup>n\<^sup>-\<^sup>1 \<le> a < 10\<^sup>n\<close>.
\<close>

fun fraction_digits :: "nat \<Rightarrow> real \<Rightarrow> string" where
  "fraction_digits 0 x = []"
| "fraction_digits (Suc n) x =
     (if x = 0 then []
      else digit_char (nat \<lfloor>x * 10\<rfloor>) # fraction_digits n (x * 10 - of_int \<lfloor>x * 10\<rfloor>))"

fun zeros_after_point :: "nat \<Rightarrow> real \<Rightarrow> nat" where
  "zeros_after_point 0 a = 0"
| "zeros_after_point (Suc n) a =
     (if 1 \<le> a * 10 then 0 else Suc (zeros_after_point n (a * 10)))"

fun digits_before_point :: "nat \<Rightarrow> real \<Rightarrow> nat" where
  "digits_before_point 0 a = 0"
| "digits_before_point (Suc n) a =
     (if a < 1 then 0 else Suc (digits_before_point n (a / 10)))"

definition decimal_exponent :: "real \<Rightarrow> int" where
  "decimal_exponent a =
     (if 1 \<le> a then int (digits_before_point 400 a) else - int (zeros_after_point 400 a))"

definition js_number_text :: "real \<Rightarrow> string" where
  "js_number_text x =
     (let a = \<bar>x\<bar>;
          n = decimal_exponent a;
          digits = fraction_digits 17 (if 0 \<le> n then a / 10 ^ nat n else a * 10 ^ nat (- n));
          k = int (length digits);
          text =
            (if k \<le> n \<and> n \<le> 21 then digits @ replicate (nat (n - k)) CHR ''0''
             else if 0 < n \<and> n \<le> 21 then take (nat n) digits @ CHR ''.'' # drop (nat n) digits
             else if - 6 < n \<and> n \<le> 0 then ''0.'' @ replicate (nat (- n)) CHR ''0'' @ digits
             else take 1 digits @ (if k = 1 then [] else CHR ''.'' # drop 1 digits) @
                  CHR ''e'' # (if 0 < n then CHR ''+'' else CHR ''-'') # show_nat (nat \<bar>n - 1\<bar>))
      in if x < 0 then CHR ''-'' # text else text)"

definition demo_env :: node_env where
  "demo_env =
     \<lparr>sha256_hex = (\<lambda>s. s),
      sign_base64 = (\<lambda>key data. None),
      verify_base64 = (\<lambda>key data sg. None),
      numberToString = js_number_text\<rparr>"

definition demo_keys :: KeyPair where
  "demo_keys = \<lparr>publicKey = ''k'', privateKey = ''k''\<rparr>"

definition demo_model :: StateSpaceModel where
  "demo_model =
     \<lparr>config = createDefaultSSMConfig, currentState = [Num 0, Num 0], keyPair = demo_keys\<rparr>"

text \<open>A slot that holds no finite number: NaN, an infinity, or \<^verbatim>\<open>undefined\<close> (which the
  arithmetic converts to NaN).\<close>

fun not_finite :: "jsnum \<Rightarrow> bool" where
  "not_finite (Num r) = False"
| "not_finite x = True"

section \<open>The loops of the matrix product\<close>

lemma for_each_Inr:
  "(\<And>x. x \<in> set xs \<Longrightarrow> f x = Inr (g x)) \<Longrightarrow> for_each f xs = Inr (map g xs)"
  by (induction xs) auto

lemma inner_loop_defined:
  "(\<And>k. k \<in> set ks \<Longrightarrow> k < length N) \<Longrightarrow>
   inner_loop Ai N j ks acc =
     Inr (foldl (\<lambda>a k. js_add a (js_mul (js_index Ai k) (js_index (N ! k) j))) acc ks)"
  by (induction ks arbitrary: acc) (auto simp: js_row_def)

lemma foldl_indices_zip:
  "length xs = n \<Longrightarrow> length ys = n \<Longrightarrow>
   foldl (\<lambda>a k. f a (g (xs ! k) (ys ! k))) a0 [0..<n] = foldl f a0 (map2 g xs ys)"
proof -
  assume lx: "length xs = n" and ly: "length ys = n"
  have "map2 g xs ys = map (\<lambda>k. g (xs ! k) (ys ! k)) [0..<n]"
    using lx ly by (intro nth_equalityI) auto
  then show ?thesis
    by (simp add: foldl_map)
qed

lemma inner_loop_dot:
  assumes "length row = length v"
  shows "inner_loop row (vectorToMatrix v) 0 [0..<length row] (Num 0) = Inr (dot row v)"
proof -
  have "inner_loop row (vectorToMatrix v) 0 [0..<length row] (Num 0) =
        Inr (foldl (\<lambda>a k. js_add a (js_mul (js_index row k) (js_index (vectorToMatrix v ! k) 0)))
               (Num 0) [0..<length row])"
    using assms by (intro inner_loop_defined) (simp add: vectorToMatrix_def)
  also have "foldl (\<lambda>a k. js_add a (js_mul (js_index row k) (js_index (vectorToMatrix v ! k) 0)))
               (Num 0) [0..<length row] =
             foldl (\<lambda>a k. js_add a (js_mul (row ! k) (v ! k))) (Num 0) [0..<length row]"
    using assms by (intro foldl_cong) (auto simp: js_index_def vectorToMatrix_def)
  also have "\<dots> = dot row v"
    unfolding dot_def using assms by (intro foldl_indices_zip) auto
  finally show ?thesis .
qed

lemma matrixMultiply_vector:
  assumes "M \<noteq> []" and "v \<noteq> []" and "\<And>row. row \<in> set M \<Longrightarrow> length row = length v"
  shows "matrixMultiply M (vectorToMatrix v) = Inr (map (\<lambda>row. [dot row v]) M)"
proof -
  have A0: "js_row M 0 = Some (M ! 0)"
    using assms(1) by (simp add: js_row_def)
  have B0: "js_row (vectorToMatrix v) 0 = Some [v ! 0]"
    using assms(2) by (simp add: js_row_def vectorToMatrix_def)
  have row0: "length (M ! 0) = length v"
    using assms(1,3) by simp
  have inner: "inner_loop (M ! i) (vectorToMatrix v) 0 [0..<length (M ! 0)] (Num 0) = Inr (dot (M ! i) v)"
    if "i < length M" for i
    using that assms(3) [of "M ! i"] inner_loop_dot [of "M ! i" v] row0 by simp
  have rows: "for_each
          (\<lambda>i. for_each (\<lambda>j. inner_loop (M ! i) (vectorToMatrix v) j [0..<length (M ! 0)] (Num 0))
                  [0..<length [v ! 0]])
          [0..<length M] = Inr (map (\<lambda>i. [dot (M ! i) v]) [0..<length M])"
  proof (intro for_each_Inr)
    fix i assume "i \<in> set [0..<length M]"
    then have "i < length M" by simp
    then show "for_each (\<lambda>j. inner_loop (M ! i) (vectorToMatrix v) j [0..<length (M ! 0)] (Num 0))
                 [0..<length [v ! 0]] = Inr [dot (M ! i) v]"
      by (simp add: inner)
  qed
  have "map (\<lambda>i. [dot (M ! i) v]) [0..<length M] = map (\<lambda>row. [dot row v]) M"
    by (intro nth_equalityI) auto
  then show ?thesis
    by (simp only: matrixMultiply_def A0 B0 option.case Let_def rows)
qed

lemma add_first_columns_singletons:
  assumes "length xs = length ys"
  shows "add_first_columns (map (\<lambda>x. [x]) xs) (map (\<lambda>y. [y]) ys) =
         Inr (map (\<lambda>x. [x]) (vec_add xs ys))"
proof -
  have "add_first_columns (map (\<lambda>x. [x]) xs) (map (\<lambda>y. [y]) ys) =
        Inr (map (\<lambda>i. [js_add (xs ! i) (ys ! i)]) [0..<length xs])"
    unfolding add_first_columns_def using assms
    by (simp, intro for_each_Inr) (simp add: js_row_def js_index_def)
  moreover have "map (\<lambda>i. [js_add (xs ! i) (ys ! i)]) [0..<length xs] = map (\<lambda>x. [x]) (vec_add xs ys)"
    using assms by (intro nth_equalityI) (auto simp: vec_add_def)
  ultimately show ?thesis by simp
qed

lemma matrixToVector_singletons: "matrixToVector (map (\<lambda>x. [x]) xs) = xs"
  by (simp add: matrixToVector_def js_index_def comp_def)


lemma has_shape_rows:
  "has_shape M r c \<Longrightarrow> 0 < r \<Longrightarrow> int (length v) = c \<Longrightarrow>
   M \<noteq> [] \<and> length M = nat r \<and> (\<forall>row \<in> set M. length row = length v)"
  by (auto simp: has_shape_def list_all_iff)

lemma affine_step:
  assumes M: "has_shape M r (int (length x))" and N: "has_shape N r (int (length u))"
    and r: "0 < r" and x: "x \<noteq> []" and u: "u \<noteq> []"
  shows "matrixMultiply M (vectorToMatrix x) = Inr (map (\<lambda>y. [y]) (mat_vec M x))"
    and "matrixMultiply N (vectorToMatrix u) = Inr (map (\<lambda>y. [y]) (mat_vec N u))"
    and "add_first_columns (map (\<lambda>y. [y]) (mat_vec M x)) (map (\<lambda>y. [y]) (mat_vec N u)) =
           Inr (map (\<lambda>y. [y]) (vec_add (mat_vec M x) (mat_vec N u)))"
proof -
  from has_shape_rows [OF M r refl] have M': "M \<noteq> []" "length M = nat r" "\<And>row. row \<in> set M \<Longrightarrow> length row = length x"
    by auto
  from has_shape_rows [OF N r refl] have N': "N \<noteq> []" "length N = nat r" "\<And>row. row \<in> set N \<Longrightarrow> length row = length u"
    by auto
  show "matrixMultiply M (vectorToMatrix x) = Inr (map (\<lambda>y. [y]) (mat_vec M x))"
    using matrixMultiply_vector [OF M'(1) x M'(3)] by (simp add: mat_vec_def comp_def)
  show "matrixMultiply N (vectorToMatrix u) = Inr (map (\<lambda>y. [y]) (mat_vec N u))"
    using matrixMultiply_vector [OF N'(1) u N'(3)] by (simp add: mat_vec_def comp_def)
  show "add_first_columns (map (\<lambda>y. [y]) (mat_vec M x)) (map (\<lambda>y. [y]) (mat_vec N u)) =
           Inr (map (\<lambda>y. [y]) (vec_add (mat_vec M x) (mat_vec N u)))"
    by (intro add_first_columns_singletons) (simp add: mat_vec_def M'(2) N'(2))
qed

lemma transition_well_shaped:
  assumes ws: "well_shaped (config m)"
    and st: "int (length (currentState m)) = stateSize (config m)"
    and len: "int (length inp) = inputSize (config m)"
  shows "transition env now m inp =
     (case sign_base64 env (privateKey (keyPair m))
             (hashState env (transitionData (currentState m) (spec_nextState m inp) inp (spec_output m inp)
                (Num (of_int now)))) of
        None \<Rightarrow> (Inl CryptoError, m\<lparr>currentState := spec_nextState m inp\<rparr>)
      | Some sg \<Rightarrow>
          (Inr \<lparr>prevState = currentState m, nextState = spec_nextState m inp, input = inp,
                output = spec_output m inp, timestamp = Num (of_int now),
                hash = hashState env (transitionData (currentState m) (spec_nextState m inp) inp
                         (spec_output m inp) (Num (of_int now))),
                signature = sg\<rparr>,
           m\<lparr>currentState := spec_nextState m inp\<rparr>))"
proof -
  from ws st len have x: "currentState m \<noteq> []" and u: "inp \<noteq> []"
    by (auto simp: well_shaped_def)
  from ws st len have shA: "has_shape (A (config m)) (stateSize (config m)) (int (length (currentState m)))"
    and shB: "has_shape (B (config m)) (stateSize (config m)) (int (length inp))"
    and shC: "has_shape (C (config m)) (outputSize (config m)) (int (length (currentState m)))"
    and shD: "has_shape (D (config m)) (outputSize (config m)) (int (length inp))"
    and pos: "0 < stateSize (config m)" "0 < outputSize (config m)"
    by (simp_all add: well_shaped_def)
  note s1 = affine_step [OF shA shB pos(1) x u]
  note s2 = affine_step [OF shC shD pos(2) x u]
  show ?thesis
    unfolding transition_def spec_nextState_def spec_output_def
    by (simp add: len s1 s2 Let_def matrixToVector_singletons signData_def)
qed

lemma dot_fold_finite:
  "length r = length v \<Longrightarrow>
   foldl js_add (Num a) (map2 js_mul (map Num r) (map Num v)) = Num (a + sum_list (map2 (*) r v))"
  by (induction r v arbitrary: a rule: list_induct2) (simp_all add: add.assoc)

text \<open>On finite numbers \<open>dot\<close> is the sum of the products of the real numbers.\<close>

lemma dot_finite:
  "length r = length v \<Longrightarrow> dot (map Num r) (map Num v) = Num (sum_list (map2 (*) r v))"
  using dot_fold_finite [of r v 0] by (simp add: dot_def)

text \<open>A model built by the constructor has a state vector of stateSize entries, and a
  call on a model with a well-shaped configuration keeps that length.\<close>

lemma spec_nextState_length:
  assumes "well_shaped (config m)"
  shows "int (length (spec_nextState m inp)) = stateSize (config m)"
  using assms
  by (simp add: spec_nextState_def vec_add_def mat_vec_def well_shaped_def has_shape_def)

lemma transition_keeps_state_length:
  assumes "well_shaped (config m)" and "int (length (currentState m)) = stateSize (config m)"
  shows "int (length (currentState (snd (transition env now m inp)))) = stateSize (config m)"
proof (cases "int (length inp) = inputSize (config m)")
  case True
  from transition_well_shaped [OF assms True, of env now] spec_nextState_length [OF assms(1), of inp]
  show ?thesis
    by (simp split: option.split)
next
  case False
  with assms(2) show ?thesis
    by (simp add: transition_def)
qed

lemma new_model_state_length:
  "new_StateSpaceModel keys cfg = Inr m \<Longrightarrow>
   config m = cfg \<and> int (length (currentState m)) = stateSize cfg"
  by (auto simp: new_StateSpaceModel_def split: if_splits)

section \<open>The transition\<close>

text \<open>Every call keeps the configuration and the key pair of the model.\<close>

lemma transition_keeps_config_and_keys:
  "config (snd (transition env now m inp)) = config m \<and>
   keyPair (snd (transition env now m inp)) = keyPair m"
  by (simp add: transition_def Let_def split: sum.split option.split)

lemma replay_keeps_state_length:
  "well_shaped (config m) \<Longrightarrow> int (length (currentState m)) = stateSize (config m) \<Longrightarrow>
   config (snd (replay env m steps)) = config m \<and>
   int (length (currentState (snd (replay env m steps)))) = stateSize (config m)"
proof (induction steps arbitrary: m)
  case Nil
  then show ?case by simp
next
  case (Cons step steps)
  let ?m' = "snd (transition env (fst step) m (snd step))"
  have c: "config ?m' = config m"
    using transition_keeps_config_and_keys by simp
  have l: "int (length (currentState ?m')) = stateSize (config ?m')"
    using transition_keeps_state_length [OF Cons.prems] c by simp
  from Cons.IH [of ?m'] Cons.prems(1) c l show ?case
    by (simp add: case_prod_beta Let_def)
qed

text \<open>With the shapes of the data model, a call makes
  \<open>A\<cdot>currentState + B\<cdot>input\<close> the state of the model, and it ends in one of two ways:
  with the exception of the signing call, or with the record of the step.\<close>

lemma transition_state_and_result:
  assumes "well_shaped (config m)"
    and "int (length (currentState m)) = stateSize (config m)"
    and "int (length inp) = inputSize (config m)"
  shows "snd (transition env now m inp) = m\<lparr>currentState := spec_nextState m inp\<rparr> \<and>
         (fst (transition env now m inp) = Inl CryptoError \<or>
          (\<exists>sg. fst (transition env now m inp) =
             Inr \<lparr>prevState = currentState m,
                  nextState = spec_nextState m inp,
                  input = inp,
                  output = spec_output m inp,
                  timestamp = Num (of_int now),
                  hash = hashState env (transitionData (currentState m) (spec_nextState m inp) inp
                           (spec_output m inp) (Num (of_int now))),
                  signature = sg\<rparr>))"
  unfolding transition_well_shaped [OF assms]
  by (cases "sign_base64 env (privateKey (keyPair m))
        (hashState env (transitionData (currentState m) (spec_nextState m inp) inp
           (spec_output m inp) (Num (of_int now))))") simp_all

text \<open>
  C6. For every model and every input vector whose length differs from inputSize,
  \<open>transition\<close> throws the error \<^verbatim>\<open>Input size mismatch: expected ..., got ...\<close> and the
  state of the model is the same before and after the call.
\<close>

theorem transition_rejects_wrong_length:
  assumes "int (length inp) \<noteq> inputSize (config m)"
  shows "transition env now m inp =
           (Inl (Error (size_mismatch_message (inputSize (config m)) (length inp))), m) \<and>
         getState (snd (transition env now m inp)) = getState m"
  using assms by (simp add: transition_def)

text \<open>The default model, given two numbers where one is expected.\<close>

theorem transition_rejects_wrong_length_witness:
  "int (length [Num 1, Num 2]) \<noteq> inputSize (config demo_model) \<and>
   transition demo_env 7 demo_model [Num 1, Num 2] =
     (Inl (Error ''Input size mismatch: expected 1, got 2''), demo_model) \<and>
   getState (snd (transition demo_env 7 demo_model [Num 1, Num 2])) = getState demo_model"
proof -
  have h: "int (length [Num 1, Num 2]) \<noteq> inputSize (config demo_model)"
    by (simp add: demo_model_def createDefaultSSMConfig_def)
  have msg: "size_mismatch_message (inputSize (config demo_model)) (length [Num 1, Num 2]) =
             ''Input size mismatch: expected 1, got 2''"
    by (simp add: size_mismatch_message_def show_int_def show_nat.simps digit_char_def
        demo_model_def createDefaultSSMConfig_def)
  from transition_rejects_wrong_length [OF h, of demo_env 7, unfolded msg] show ?thesis
    using h by simp
qed

text \<open>
  A configuration with stateSize 0 has the shapes of the data model (\<open>A\<close> is 0 by 0,
  \<open>B\<close> 0 by 1, \<open>C\<close> 1 by 0, \<open>D\<close> 1 by 1) and the constructor accepts it; on the model it
  builds, \<open>transition\<close> with an input of length inputSize throws a TypeError at
  \<^verbatim>\<open>A[0].length\<close>, before any assignment.
\<close>

lemma transition_zero_state_size_throws:
  "new_StateSpaceModel demo_keys
     \<lparr>stateSize = 0, inputSize = 1, outputSize = 1, A = [], B = [], C = [[]], D = [[Num 0.1]]\<rparr> =
   Inr \<lparr>config = \<lparr>stateSize = 0, inputSize = 1, outputSize = 1, A = [], B = [], C = [[]], D = [[Num 0.1]]\<rparr>,
        currentState = [], keyPair = demo_keys\<rparr> \<and>
   transition demo_env 7
     \<lparr>config = \<lparr>stateSize = 0, inputSize = 1, outputSize = 1, A = [], B = [], C = [[]], D = [[Num 0.1]]\<rparr>,
      currentState = [], keyPair = demo_keys\<rparr> [Num 1] =
   (Inl TypeError,
    \<lparr>config = \<lparr>stateSize = 0, inputSize = 1, outputSize = 1, A = [], B = [], C = [[]], D = [[Num 0.1]]\<rparr>,
     currentState = [], keyPair = demo_keys\<rparr>)"
  by (simp add: new_StateSpaceModel_def transition_def matrixMultiply_def js_row_def)

section \<open>The default configuration\<close>

lemma default_config_well_shaped: "well_shaped createDefaultSSMConfig"
  by (simp add: well_shaped_def has_shape_def createDefaultSSMConfig_def)

lemma default_step_from_zero:
  "spec_nextState \<lparr>config = createDefaultSSMConfig, currentState = [Num 0, Num 0], keyPair = keys\<rparr>
     [Num 1] = [Num 1, Num 0.5] \<and>
   spec_output \<lparr>config = createDefaultSSMConfig, currentState = [Num 0, Num 0], keyPair = keys\<rparr>
     [Num 1] = [Num 0.1]"
  by (simp add: spec_nextState_def spec_output_def vec_add_def mat_vec_def dot_def
      createDefaultSSMConfig_def)

lemma default_step_second:
  "spec_nextState \<lparr>config = createDefaultSSMConfig, currentState = [Num 1, Num 0.5], keyPair = keys\<rparr>
     [Num 1] = [Num 1.975, Num 1.025] \<and>
   spec_output \<lparr>config = createDefaultSSMConfig, currentState = [Num 1, Num 0.5], keyPair = keys\<rparr>
     [Num 1] = [Num 1.35]"
  by (simp add: spec_nextState_def spec_output_def vec_add_def mat_vec_def dot_def
      createDefaultSSMConfig_def)

lemma default_step_nan:
  "spec_nextState \<lparr>config = createDefaultSSMConfig, currentState = [Num 0, Num 0], keyPair = keys\<rparr>
     [NaN] = [NaN, NaN] \<and>
   spec_output \<lparr>config = createDefaultSSMConfig, currentState = [Num 0, Num 0], keyPair = keys\<rparr>
     [NaN] = [NaN]"
  by (simp add: spec_nextState_def spec_output_def vec_add_def mat_vec_def dot_def
      createDefaultSSMConfig_def)

lemma demo_env_rejects_key_pair: "rejects_key_pair demo_env keys"
  by (simp add: rejects_key_pair_def demo_env_def)

lemma demo_model_shape:
  "well_shaped (config demo_model) \<and>
   int (length (currentState demo_model)) = stateSize (config demo_model) \<and>
   int (length [x]) = inputSize (config demo_model)"
proof -
  have "well_shaped (config demo_model)"
    by (simp add: demo_model_def default_config_well_shaped)
  moreover have "int (length (currentState demo_model)) = stateSize (config demo_model)"
    by (simp add: demo_model_def createDefaultSSMConfig_def)
  moreover have "int (length [x]) = inputSize (config demo_model)"
    by (simp add: demo_model_def createDefaultSSMConfig_def)
  ultimately show ?thesis by blast
qed

text \<open>The steps of the default model on the concrete runtime, whose signing call throws:
  the state is assigned, and the exception of the signing call ends the call.\<close>

lemma demo_first_step:
  "transition demo_env now demo_model [Num 1] =
     (Inl CryptoError, demo_model\<lparr>currentState := [Num 1, Num 0.5]\<rparr>)"
proof -
  note shape = demo_model_shape [of "Num 1"]
  note step = transition_well_shaped [OF shape [THEN conjunct1] shape [THEN conjunct2, THEN conjunct1]
      shape [THEN conjunct2, THEN conjunct2], of demo_env now]
  have nx: "spec_nextState demo_model [Num 1] = [Num 1, Num 0.5]"
    unfolding demo_model_def by (rule default_step_from_zero [THEN conjunct1])
  show ?thesis
    unfolding step nx by (simp add: demo_env_def)
qed

lemma demo_second_step:
  "transition demo_env now (demo_model\<lparr>currentState := [Num 1, Num 0.5]\<rparr>) [Num 1] =
     (Inl CryptoError, demo_model\<lparr>currentState := [Num 1.975, Num 1.025]\<rparr>)"
proof -
  let ?m1 = "\<lparr>config = createDefaultSSMConfig, currentState = [Num 1, Num 0.5], keyPair = demo_keys\<rparr>"
  have m: "demo_model\<lparr>currentState := [Num 1, Num 0.5]\<rparr> = ?m1"
    by (simp add: demo_model_def)
  have ws: "well_shaped (config ?m1)"
    by (simp add: default_config_well_shaped)
  have st: "int (length (currentState ?m1)) = stateSize (config ?m1)"
    and len: "int (length [Num 1]) = inputSize (config ?m1)"
    by (simp_all add: createDefaultSSMConfig_def)
  note step = transition_well_shaped [OF ws st len, of demo_env now,
      unfolded default_step_second [THEN conjunct1] default_step_second [THEN conjunct2]]
  show ?thesis
    unfolding m step by (simp add: demo_env_def demo_model_def)
qed

lemma demo_nan_step:
  "transition demo_env now demo_model [NaN] =
     (Inl CryptoError, demo_model\<lparr>currentState := [NaN, NaN]\<rparr>)"
proof -
  note shape = demo_model_shape [of NaN]
  note step = transition_well_shaped [OF shape [THEN conjunct1] shape [THEN conjunct2, THEN conjunct1]
      shape [THEN conjunct2, THEN conjunct2], of demo_env now]
  have nx: "spec_nextState demo_model [NaN] = [NaN, NaN]"
    unfolding demo_model_def by (rule default_step_nan [THEN conjunct1])
  show ?thesis
    unfolding step nx by (simp add: demo_env_def)
qed

lemma demo_replay:
  "replay demo_env demo_model [(n1, [Num 1]), (n2, [Num 1])] =
     ([Inl CryptoError, Inl CryptoError], demo_model\<lparr>currentState := [Num 1.975, Num 1.025]\<rparr>)"
  by (simp only: replay.simps demo_first_step demo_second_step Let_def prod.case fst_conv snd_conv)

section \<open>The signing call in \<^verbatim>\<open>transition\<close>\<close>

text \<open>
  C1, where the code leaves it. On a runtime that rejects the key pair of the model, as
  Node does for the Ed25519 pair the constructor generates, \<open>transition\<close> returns no
  record, for any model and any input. With the shapes of the data model, a state
  vector of stateSize entries and an input of length inputSize, the call has computed
  \<open>nextState = A\<cdot>currentState + B\<cdot>input\<close> from the state before the call and has made it
  the state of the model when \<^verbatim>\<open>signData\<close> throws: the caller gets the exception of the
  signing call, and the model keeps the new state.
\<close>

theorem transition_throws_in_signData:
  assumes "rejects_key_pair env (keyPair m)"
  shows "(\<forall>t. fst (transition env now m inp) \<noteq> Inr t) \<and>
         (well_shaped (config m) \<and>
          int (length (currentState m)) = stateSize (config m) \<and>
          int (length inp) = inputSize (config m) \<longrightarrow>
          transition env now m inp =
            (Inl CryptoError, m\<lparr>currentState := spec_nextState m inp\<rparr>))"
proof -
  have s: "sign_base64 env (privateKey (keyPair m)) d = None" for d
    using assms by (simp add: rejects_key_pair_def)
  have a: "\<forall>t. fst (transition env now m inp) \<noteq> Inr t"
    by (simp add: transition_def Let_def signData_def s split: sum.split)
  have b: "transition env now m inp = (Inl CryptoError, m\<lparr>currentState := spec_nextState m inp\<rparr>)"
    if "well_shaped (config m)" "int (length (currentState m)) = stateSize (config m)"
      "int (length inp) = inputSize (config m)"
    by (simp add: transition_well_shaped [OF that] s)
  from a b show ?thesis by blast
qed

text \<open>The default model, from the zero state, with the input \<open>[1]\<close>.\<close>

theorem transition_throws_in_signData_witness:
  "rejects_key_pair demo_env (keyPair demo_model) \<and>
   well_shaped (config demo_model) \<and>
   int (length (currentState demo_model)) = stateSize (config demo_model) \<and>
   int (length [Num 1]) = inputSize (config demo_model) \<and>
   transition demo_env 7 demo_model [Num 1] =
     (Inl CryptoError, demo_model\<lparr>currentState := [Num 1, Num 0.5]\<rparr>)"
proof -
  have nx: "spec_nextState demo_model [Num 1] = [Num 1, Num 0.5]"
    unfolding demo_model_def by (rule default_step_from_zero [THEN conjunct1])
  from transition_throws_in_signData [where env = demo_env and m = demo_model and now = 7
      and inp = "[Num 1]", OF demo_env_rejects_key_pair]
    demo_env_rejects_key_pair [of "keyPair demo_model"] demo_model_shape [of "Num 1"]
  show ?thesis
    unfolding nx by blast
qed

section \<open>Replays\<close>

text \<open>What a call computes depends on the configuration, the state and the input
  only: not on the clock, and not on the key pair, as long as the signing call treats
  the two key pairs alike.\<close>

lemma transition_observation:
  assumes "config m1 = config m2" and "currentState m1 = currentState m2"
    and "signer_treats_alike env (keyPair m1) (keyPair m2)"
  shows "observation (fst (transition env n1 m1 inp)) = observation (fst (transition env n2 m2 inp)) \<and>
         currentState (snd (transition env n1 m1 inp)) = currentState (snd (transition env n2 m2 inp))"
proof -
  have s: "(sign_base64 env (privateKey (keyPair m1)) d = None) =
           (sign_base64 env (privateKey (keyPair m2)) d' = None)" for d d'
    using assms(3) by (simp add: signer_treats_alike_def)
  consider
    (throws) "\<And>d. sign_base64 env (privateKey (keyPair m1)) d = None"
      "\<And>d. sign_base64 env (privateKey (keyPair m2)) d = None"
  | (returns) "\<And>d. sign_base64 env (privateKey (keyPair m1)) d \<noteq> None"
      "\<And>d. sign_base64 env (privateKey (keyPair m2)) d \<noteq> None"
    using s by metis
  then show ?thesis
  proof cases
    case throws
    show ?thesis
      unfolding transition_def Let_def signData_def
      using assms(1,2)
      by (auto simp: observation_def throws split: sum.split option.split)
  next
    case returns
    show ?thesis
      unfolding transition_def Let_def signData_def
      using assms(1,2)
      by (auto simp: observation_def returns split: sum.split option.split)
  qed
qed

text \<open>The state a call leaves does not depend on the signing call at all.\<close>

lemma transition_state_deterministic:
  assumes "config m1 = config m2" and "currentState m1 = currentState m2"
  shows "currentState (snd (transition env n1 m1 inp)) = currentState (snd (transition env n2 m2 inp))"
  unfolding transition_def Let_def
  using assms
  by (auto split: sum.split option.split)

lemma replay_state_deterministic:
  assumes "config m1 = config m2" and "currentState m1 = currentState m2"
    and "map snd steps1 = map snd steps2"
  shows "getState (snd (replay env m1 steps1)) = getState (snd (replay env m2 steps2))"
  using assms
proof (induction steps1 arbitrary: steps2 m1 m2)
  case Nil
  then show ?case by (simp add: getState_def)
next
  case (Cons step steps1)
  from Cons.prems(3) obtain step' steps2' where s2: "steps2 = step' # steps2'"
    and inp: "snd step = snd step'" and rest: "map snd steps1 = map snd steps2'"
    by (cases steps2) auto
  let ?r1 = "transition env (fst step) m1 (snd step)"
  let ?r2 = "transition env (fst step') m2 (snd step)"
  have cs: "currentState (snd ?r1) = currentState (snd ?r2)"
    using transition_state_deterministic [OF Cons.prems(1,2)] by auto
  have cf: "config (snd ?r1) = config (snd ?r2)"
    using transition_keeps_config_and_keys Cons.prems(1) by simp
  from Cons.IH [OF cf cs rest] show ?case
    by (simp add: s2 inp [symmetric] case_prod_beta Let_def)
qed

lemma replay_results_deterministic:
  assumes "config m1 = config m2" and "currentState m1 = currentState m2"
    and "map snd steps1 = map snd steps2"
    and "signer_treats_alike env (keyPair m1) (keyPair m2)"
  shows "map observation (fst (replay env m1 steps1)) = map observation (fst (replay env m2 steps2))"
  using assms
proof (induction steps1 arbitrary: steps2 m1 m2)
  case Nil
  then show ?case by simp
next
  case (Cons step steps1)
  from Cons.prems(3) obtain step' steps2' where s2: "steps2 = step' # steps2'"
    and inp: "snd step = snd step'" and rest: "map snd steps1 = map snd steps2'"
    by (cases steps2) auto
  let ?r1 = "transition env (fst step) m1 (snd step)"
  let ?r2 = "transition env (fst step') m2 (snd step)"
  have obs: "observation (fst ?r1) = observation (fst ?r2)"
    and cs: "currentState (snd ?r1) = currentState (snd ?r2)"
    using transition_observation [OF Cons.prems(1,2,4)] by auto
  have cf: "config (snd ?r1) = config (snd ?r2)"
    using transition_keeps_config_and_keys Cons.prems(1) by simp
  have k: "signer_treats_alike env (keyPair (snd ?r1)) (keyPair (snd ?r2))"
    using transition_keeps_config_and_keys Cons.prems(4) by simp
  from Cons.IH [OF cf cs rest k] obs show ?case
    by (simp add: s2 inp [symmetric] case_prod_beta Let_def)
qed

text \<open>
  C2. Two replays of one sequence of input vectors, on two model objects with the same
  configuration and the same initial state, leave the two models in the same state,
  whatever the clock shows in either replay, whichever key pair either model generated
  and whatever the signing call does. When the signing call treats the two key pairs
  alike (it throws for both, as Node's does, or for neither), the two replays also
  give the same sequence of results: the vectors previousState, nextState and output
  of each record, or the exception of the call.
\<close>

theorem replay_deterministic:
  assumes "config m1 = config m2" and "currentState m1 = currentState m2"
    and "map snd steps1 = map snd steps2"
  shows "getState (snd (replay env m1 steps1)) = getState (snd (replay env m2 steps2)) \<and>
         (signer_treats_alike env (keyPair m1) (keyPair m2) \<longrightarrow>
          map observation (fst (replay env m1 steps1)) =
          map observation (fst (replay env m2 steps2)))"
  using replay_state_deterministic [OF assms] replay_results_deterministic [OF assms]
  by blast

text \<open>Two replays of the inputs \<open>[1]\<close>, \<open>[1]\<close> on the default configuration, at different
  clock values and with different key pairs, on the runtime whose signing call throws:
  both give the exception twice and end in the state \<open>[1.975, 1.025]\<close>.\<close>

theorem replay_deterministic_witness:
  "config demo_model = config (demo_model\<lparr>keyPair := \<lparr>publicKey = ''p'', privateKey = ''q''\<rparr>\<rparr>) \<and>
   currentState demo_model =
     currentState (demo_model\<lparr>keyPair := \<lparr>publicKey = ''p'', privateKey = ''q''\<rparr>\<rparr>) \<and>
   map snd [(1, [Num 1]), (2, [Num 1])] = map snd [(10 :: int, [Num 1]), (20, [Num 1])] \<and>
   signer_treats_alike demo_env (keyPair demo_model)
     (keyPair (demo_model\<lparr>keyPair := \<lparr>publicKey = ''p'', privateKey = ''q''\<rparr>\<rparr>)) \<and>
   map observation (fst (replay demo_env demo_model [(1, [Num 1]), (2, [Num 1])])) =
     [Inl CryptoError, Inl CryptoError] \<and>
   map observation
     (fst (replay demo_env (demo_model\<lparr>keyPair := \<lparr>publicKey = ''p'', privateKey = ''q''\<rparr>\<rparr>)
        [(10, [Num 1]), (20, [Num 1])])) =
     [Inl CryptoError, Inl CryptoError] \<and>
   getState (snd (replay demo_env demo_model [(1, [Num 1]), (2, [Num 1])])) =
     [Num 1.975, Num 1.025] \<and>
   getState
     (snd (replay demo_env (demo_model\<lparr>keyPair := \<lparr>publicKey = ''p'', privateKey = ''q''\<rparr>\<rparr>)
        [(10, [Num 1]), (20, [Num 1])])) =
     [Num 1.975, Num 1.025]"
proof -
  let ?m2 = "demo_model\<lparr>keyPair := \<lparr>publicKey = ''p'', privateKey = ''q''\<rparr>\<rparr>"
  have a: "config demo_model = config ?m2" by simp
  have b: "currentState demo_model = currentState ?m2" by simp
  have c: "map snd [(1, [Num 1]), (2, [Num 1])] = map snd [(10 :: int, [Num 1]), (20, [Num 1])]"
    by simp
  have d: "signer_treats_alike demo_env (keyPair demo_model) (keyPair ?m2)"
    by (simp add: signer_treats_alike_def demo_env_def)
  have e: "map observation (fst (replay demo_env demo_model [(1, [Num 1]), (2, [Num 1])])) =
           [Inl CryptoError, Inl CryptoError]"
    unfolding demo_replay by (simp add: observation_def)
  have f: "getState (snd (replay demo_env demo_model [(1, [Num 1]), (2, [Num 1])])) =
           [Num 1.975, Num 1.025]"
    unfolding demo_replay getState_def by simp
  from replay_deterministic [OF a b c, of demo_env] a b c d e f show ?thesis
    by metis
qed

section \<open>The scenario of the default configuration\<close>

text \<open>
  C5, as the code has it. With the default configuration
  (\<open>A = [[0.95, 0.05], [0.05, 0.95]]\<close>, \<open>B = [[1], [0.5]]\<close>, \<open>C = [[1, 0.5]]\<close>, \<open>D = [[0.1]]\<close>)
  a new model has the state \<open>[0, 0]\<close>. A transition with input \<open>[1]\<close> makes \<open>[1, 0.5]\<close> the
  state of the model, and its result is the exception of the signing call or a record
  with previous state \<open>[0, 0]\<close>, next state \<open>[1, 0.5]\<close> and output \<open>[0.1]\<close>. A second
  transition with input \<open>[1]\<close>, from the state \<open>[1, 0.5]\<close>, makes \<open>[1.975, 1.025]\<close> the
  state, and its result is the exception of the signing call or a record with previous
  state \<open>[1, 0.5]\<close>, next state \<open>[1.975, 1.025]\<close> and output \<open>[1.35]\<close>. This holds for every
  runtime, every key pair and all clock values.
\<close>

theorem default_scenario:
  "new_StateSpaceModel keys createDefaultSSMConfig =
     Inr \<lparr>config = createDefaultSSMConfig, currentState = [Num 0, Num 0], keyPair = keys\<rparr> \<and>
   snd (transition env now1
          \<lparr>config = createDefaultSSMConfig, currentState = [Num 0, Num 0], keyPair = keys\<rparr> [Num 1]) =
     \<lparr>config = createDefaultSSMConfig, currentState = [Num 1, Num 0.5], keyPair = keys\<rparr> \<and>
   (observation (fst (transition env now1
          \<lparr>config = createDefaultSSMConfig, currentState = [Num 0, Num 0], keyPair = keys\<rparr> [Num 1])) =
      Inl CryptoError \<or>
    observation (fst (transition env now1
          \<lparr>config = createDefaultSSMConfig, currentState = [Num 0, Num 0], keyPair = keys\<rparr> [Num 1])) =
      Inr ([Num 0, Num 0], [Num 1, Num 0.5], [Num 0.1])) \<and>
   snd (transition env now2
          \<lparr>config = createDefaultSSMConfig, currentState = [Num 1, Num 0.5], keyPair = keys\<rparr> [Num 1]) =
     \<lparr>config = createDefaultSSMConfig, currentState = [Num 1.975, Num 1.025], keyPair = keys\<rparr> \<and>
   (observation (fst (transition env now2
          \<lparr>config = createDefaultSSMConfig, currentState = [Num 1, Num 0.5], keyPair = keys\<rparr> [Num 1])) =
      Inl CryptoError \<or>
    observation (fst (transition env now2
          \<lparr>config = createDefaultSSMConfig, currentState = [Num 1, Num 0.5], keyPair = keys\<rparr> [Num 1])) =
      Inr ([Num 1, Num 0.5], [Num 1.975, Num 1.025], [Num 1.35]))"
proof -
  let ?m0 = "\<lparr>config = createDefaultSSMConfig, currentState = [Num 0, Num 0], keyPair = keys\<rparr>"
  let ?m1 = "\<lparr>config = createDefaultSSMConfig, currentState = [Num 1, Num 0.5], keyPair = keys\<rparr>"
  have new: "new_StateSpaceModel keys createDefaultSSMConfig = Inr ?m0"
    by (simp add: new_StateSpaceModel_def createDefaultSSMConfig_def numeral_2_eq_2)
  have ws0: "well_shaped (config ?m0)" and ws1: "well_shaped (config ?m1)"
    by (simp_all add: default_config_well_shaped)
  have st0: "int (length (currentState ?m0)) = stateSize (config ?m0)"
    and st1: "int (length (currentState ?m1)) = stateSize (config ?m1)"
    and len0: "int (length [Num 1]) = inputSize (config ?m0)"
    and len1: "int (length [Num 1]) = inputSize (config ?m1)"
    by (simp_all add: createDefaultSSMConfig_def)
  note step1 = transition_state_and_result [OF ws0 st0 len0, of env now1,
      unfolded default_step_from_zero [THEN conjunct1] default_step_from_zero [THEN conjunct2]]
  note step2 = transition_state_and_result [OF ws1 st1 len1, of env now2,
      unfolded default_step_second [THEN conjunct1] default_step_second [THEN conjunct2]]
  have s1: "snd (transition env now1 ?m0 [Num 1]) = ?m1"
    using step1 [THEN conjunct1] by simp
  have s2: "snd (transition env now2 ?m1 [Num 1]) =
            \<lparr>config = createDefaultSSMConfig, currentState = [Num 1.975, Num 1.025], keyPair = keys\<rparr>"
    using step2 [THEN conjunct1] by simp
  have o1: "observation (fst (transition env now1 ?m0 [Num 1])) = Inl CryptoError \<or>
            observation (fst (transition env now1 ?m0 [Num 1])) =
              Inr ([Num 0, Num 0], [Num 1, Num 0.5], [Num 0.1])"
    using step1 [THEN conjunct2] by (auto simp: observation_def)
  have o2: "observation (fst (transition env now2 ?m1 [Num 1])) = Inl CryptoError \<or>
            observation (fst (transition env now2 ?m1 [Num 1])) =
              Inr ([Num 1, Num 0.5], [Num 1.975, Num 1.025], [Num 1.35])"
    using step2 [THEN conjunct2] by (auto simp: observation_def)
  from new s1 o1 s2 o2 show ?thesis
    by blast
qed

text \<open>
  C5 as stated gives \<open>[2.025, 1.475]\<close> for the second next state. After the calls
  \<^verbatim>\<open>transition([1])\<close>, \<^verbatim>\<open>transition([1])\<close> on the default model, \<^verbatim>\<open>getState()\<close> returns
  \<open>[1.975, 1.025]\<close>: \<open>0.95\<cdot>1 + 0.05\<cdot>0.5 + 1\<cdot>1 = 1.975\<close> and
  \<open>0.05\<cdot>1 + 0.95\<cdot>0.5 + 0.5\<cdot>1 = 1.025\<close>.
\<close>

theorem second_transition_state_is_not_the_stated_vector:
  "getState (snd (replay demo_env demo_model [(1, [Num 1]), (2, [Num 1])])) =
     [Num 1.975, Num 1.025] \<and>
   [Num 1.975, Num 1.025] \<noteq> [Num 2.025, Num 1.475]"
  unfolding demo_replay getState_def by simp

section \<open>The constructor\<close>

text \<open>
  C7, as the code has it. The constructor compares no matrix with the declared sizes
  and has no ConfigurationError: for every configuration whose stateSize is an
  integer with \<open>0 \<le> stateSize < 2\<^sup>3\<^sup>2\<close>, of whatever shapes, construction succeeds, keeps
  the configuration and the generated key pair, and sets the state to stateSize zeros.
\<close>

theorem constructor_checks_no_shape:
  assumes "0 \<le> stateSize cfg" and "stateSize cfg < 2 ^ 32"
  shows "\<exists>m. new_StateSpaceModel keys cfg = Inr m \<and>
             config m = cfg \<and>
             keyPair m = keys \<and>
             getState m = replicate (nat (stateSize cfg)) (Num 0) \<and>
             int (length (getState m)) = stateSize cfg"
  using assms by (simp add: new_StateSpaceModel_def getState_def)

text \<open>The default configuration with \<open>A\<close> replaced by a 1 by 1 matrix.\<close>

theorem constructor_checks_no_shape_witness:
  "0 \<le> stateSize (createDefaultSSMConfig\<lparr>A := [[Num 1]]\<rparr>) \<and>
   stateSize (createDefaultSSMConfig\<lparr>A := [[Num 1]]\<rparr>) < 2 ^ 32 \<and>
   (\<exists>m. new_StateSpaceModel demo_keys (createDefaultSSMConfig\<lparr>A := [[Num 1]]\<rparr>) = Inr m \<and>
        config m = createDefaultSSMConfig\<lparr>A := [[Num 1]]\<rparr> \<and>
        keyPair m = demo_keys \<and>
        getState m = [Num 0, Num 0] \<and>
        int (length (getState m)) = 2)"
proof -
  have a: "0 \<le> stateSize (createDefaultSSMConfig\<lparr>A := [[Num 1]]\<rparr>)"
    by (simp add: createDefaultSSMConfig_def)
  have b: "stateSize (createDefaultSSMConfig\<lparr>A := [[Num 1]]\<rparr>) < 2 ^ 32"
    by (simp add: createDefaultSSMConfig_def)
  have c: "stateSize (createDefaultSSMConfig\<lparr>A := [[Num 1]]\<rparr>) = 2"
    by (simp add: createDefaultSSMConfig_def)
  have d: "replicate (nat 2) (Num 0) = [Num 0, Num 0]"
    by (simp add: numeral_2_eq_2)
  from constructor_checks_no_shape [OF a b, of demo_keys] show ?thesis
    using a b unfolding c d by simp
qed

text \<open>
  C7 as stated asks for a ConfigurationError when a shape disagrees with the sizes. With
  stateSize 2 and a 1 by 1 matrix \<open>A\<close>, the constructor returns a model.
\<close>

theorem constructor_accepts_misshapen_matrix:
  "\<not> has_shape (A (createDefaultSSMConfig\<lparr>A := [[Num 1]]\<rparr>))
        (stateSize (createDefaultSSMConfig\<lparr>A := [[Num 1]]\<rparr>))
        (stateSize (createDefaultSSMConfig\<lparr>A := [[Num 1]]\<rparr>)) \<and>
   new_StateSpaceModel demo_keys (createDefaultSSMConfig\<lparr>A := [[Num 1]]\<rparr>) =
     Inr \<lparr>config = createDefaultSSMConfig\<lparr>A := [[Num 1]]\<rparr>,
          currentState = [Num 0, Num 0],
          keyPair = demo_keys\<rparr>"
  by (simp add: new_StateSpaceModel_def createDefaultSSMConfig_def has_shape_def numeral_2_eq_2)

section \<open>The audit chain\<close>

text \<open>
  C8, as the code has it. The first entry appended to an empty audit log has
  \<^verbatim>\<open>prev_log_hash\<close> \<^verbatim>\<open>null\<close> (there is no genesis sentinel), and its hash is taken over
  the event type followed by the payload text, with nothing in the place of the
  previous hash.
\<close>

theorem first_entry_has_null_previous_hash:
  "audit_logs (logAuditEvent env now eventType eventData empty_database) =
     [\<lparr>event_type = eventType,
       event_data = JSON_stringify (numberToString env) eventData,
       event_hash = sha256_hex env (eventType @ JSON_stringify (numberToString env) eventData),
       prev_log_hash = None,
       created_at = now\<rparr>]"
  by (simp add: logAuditEvent_def createAuditLog_def getLastAuditLogHash_def empty_database_def
      eventHash_def Let_def)

text \<open>
  C8 as stated asks for a sentinel value that is never \<^verbatim>\<open>null\<close>. The entry that
  \<^verbatim>\<open>logAuditEvent('system_reset', {})\<close> appends to the empty log has \<^verbatim>\<open>null\<close> there.
\<close>

theorem first_entry_previous_hash_is_null_not_sentinel:
  "map prev_log_hash
     (audit_logs (logAuditEvent demo_env 5 ''system_reset'' (JObject []) empty_database)) = [None]"
  by (simp add: logAuditEvent_def createAuditLog_def getLastAuditLogHash_def empty_database_def
      Let_def)

text \<open>
  C10. Every call of \<open>logAuditEvent\<close> appends one entry whose hash is the hash of the
  plain concatenation of the event type, the payload text and the previous hash,
  \<^verbatim>\<open>null\<close> counting as the empty text. So entries with distinct contents get one hash:
  appended to the empty log, the entry of event type \<^verbatim>\<open>x1\<close> with payload 2 and the
  entry of event type \<^verbatim>\<open>x\<close> with payload 12 both have the hash of the text \<^verbatim>\<open>x12\<close>; and
  the hash expression gives one hash for an event with previous hash \<^verbatim>\<open>null\<close> and the
  same event with previous hash the empty text.
\<close>

theorem event_hash_collisions:
  "audit_logs (logAuditEvent env now eventType eventData db) =
     audit_logs db @
     [\<lparr>event_type = eventType,
       event_data = JSON_stringify (numberToString env) eventData,
       event_hash =
         sha256_hex env
           (eventType @ JSON_stringify (numberToString env) eventData @
            (case getLastAuditLogHash db of None \<Rightarrow> [] | Some h \<Rightarrow> h)),
       prev_log_hash = getLastAuditLogHash db,
       created_at = now\<rparr>] \<and>
   audit_logs (logAuditEvent env now ''x1'' (JNumber 2) empty_database) =
     [\<lparr>event_type = ''x1'', event_data = ''2'', event_hash = sha256_hex env ''x12'',
       prev_log_hash = None, created_at = now\<rparr>] \<and>
   audit_logs (logAuditEvent env now ''x'' (JNumber 12) empty_database) =
     [\<lparr>event_type = ''x'', event_data = ''12'', event_hash = sha256_hex env ''x12'',
       prev_log_hash = None, created_at = now\<rparr>] \<and>
   (''x1'', ''2'') \<noteq> (''x'', ''12'') \<and>
   eventHash env eventType dataString None = eventHash env eventType dataString (Some []) \<and>
   (eventType, dataString, None) \<noteq> (eventType, dataString, Some [])"
proof -
  have s2: "JSON_stringify (numberToString env) (JNumber 2) = ''2''"
    by (simp add: Number_toString_def show_int_def show_nat.simps digit_char_def)
  have s12: "JSON_stringify (numberToString env) (JNumber 12) = ''12''"
    by (simp add: Number_toString_def show_int_def show_nat.simps digit_char_def)
  have a: "audit_logs (logAuditEvent env now eventType eventData db) =
     audit_logs db @
     [\<lparr>event_type = eventType,
       event_data = JSON_stringify (numberToString env) eventData,
       event_hash =
         sha256_hex env
           (eventType @ JSON_stringify (numberToString env) eventData @
            (case getLastAuditLogHash db of None \<Rightarrow> [] | Some h \<Rightarrow> h)),
       prev_log_hash = getLastAuditLogHash db,
       created_at = now\<rparr>]"
    by (simp add: logAuditEvent_def createAuditLog_def eventHash_def Let_def)
  have b: "audit_logs (logAuditEvent env now ''x1'' (JNumber 2) empty_database) =
     [\<lparr>event_type = ''x1'', event_data = ''2'', event_hash = sha256_hex env ''x12'',
       prev_log_hash = None, created_at = now\<rparr>]"
    unfolding logAuditEvent_def createAuditLog_def getLastAuditLogHash_def empty_database_def
      eventHash_def s2 Let_def
    by simp
  have c: "audit_logs (logAuditEvent env now ''x'' (JNumber 12) empty_database) =
     [\<lparr>event_type = ''x'', event_data = ''12'', event_hash = sha256_hex env ''x12'',
       prev_log_hash = None, created_at = now\<rparr>]"
    unfolding logAuditEvent_def createAuditLog_def getLastAuditLogHash_def empty_database_def
      eventHash_def s12 Let_def
    by simp
  have d: "(''x1'', ''2'') \<noteq> (''x'', ''12'')"
    by simp
  have e: "eventHash env eventType dataString None = eventHash env eventType dataString (Some [])"
    by (simp add: eventHash_def)
  have f: "(eventType, dataString, None) \<noteq> (eventType, dataString, Some [])"
    by simp
  from a b c d e f show ?thesis
    by blast
qed

text \<open>
  C4, at an input where the code leaves the chain. Three calls
  \<^verbatim>\<open>logAuditEvent('system_reset', {})\<close> on the empty log, the clock reading 2000, then
  1000, then 1500: the row with the greatest \<^verbatim>\<open>created_at\<close> stays the first one, so the
  third entry names the hash of the first entry as its previous hash, as the second
  entry does, and not the hash of the second entry.
\<close>

theorem audit_chain_forks_when_clock_steps_back:
  "audit_logs (log_events env empty_database
      [(2000, ''system_reset'', JObject []),
       (1000, ''system_reset'', JObject []),
       (1500, ''system_reset'', JObject [])]) =
   [\<lparr>event_type = ''system_reset'', event_data = ''{}'',
     event_hash = sha256_hex env ''system_reset{}'',
     prev_log_hash = None, created_at = 2000\<rparr>,
    \<lparr>event_type = ''system_reset'', event_data = ''{}'',
     event_hash = sha256_hex env (''system_reset{}'' @ sha256_hex env ''system_reset{}''),
     prev_log_hash = (if sha256_hex env ''system_reset{}'' = [] then None
                      else Some (sha256_hex env ''system_reset{}'')),
     created_at = 1000\<rparr>,
    \<lparr>event_type = ''system_reset'', event_data = ''{}'',
     event_hash = sha256_hex env (''system_reset{}'' @ sha256_hex env ''system_reset{}''),
     prev_log_hash = (if sha256_hex env ''system_reset{}'' = [] then None
                      else Some (sha256_hex env ''system_reset{}'')),
     created_at = 1500\<rparr>]"
  by (simp add: logAuditEvent_def createAuditLog_def getLastAuditLogHash_def empty_database_def
      eventHash_def Let_def)

text \<open>With a hash that has no collisions the three entries are not a linked chain.\<close>

lemma audit_chain_not_linked_when_clock_steps_back:
  "\<not> chain_linked (audit_logs (log_events demo_env empty_database
      [(2000, ''system_reset'', JObject []),
       (1000, ''system_reset'', JObject []),
       (1500, ''system_reset'', JObject [])]))"
  by (simp add: logAuditEvent_def createAuditLog_def getLastAuditLogHash_def empty_database_def
      eventHash_def demo_env_def Let_def)

section \<open>The verification of a record\<close>

text \<open>
  C3, where the code leaves it. On a runtime that rejects the key pair of the model, as
  Node does for the Ed25519 pair the constructor generates, \<open>verifyTransition\<close> answers
  \<^verbatim>\<open>false\<close> for every object: when the hash of the rest object equals the \<^verbatim>\<open>hash\<close>
  property, the verifying call throws and the exception is caught.
\<close>

theorem verifyTransition_rejects_every_record:
  assumes "rejects_key_pair env (keyPair m)"
  shows "\<not> verifyTransition env m obj"
  using assms by (simp add: verifyTransition_def rejects_key_pair_def Let_def)

text \<open>The record of the first step of the default model at the clock value 7, with its
  own hash in the \<^verbatim>\<open>hash\<close> property: the hashes agree, and the answer is \<^verbatim>\<open>false\<close>.\<close>

theorem verifyTransition_rejects_every_record_witness:
  "rejects_key_pair demo_env (keyPair demo_model) \<and>
   hashState demo_env
     (JObject (object_rest (as_object
        \<lparr>prevState = [Num 0, Num 0], nextState = [Num 1, Num 0.5], input = [Num 1],
         output = [Num 0.1], timestamp = Num 7,
         hash = hashState demo_env
                  (transitionData [Num 0, Num 0] [Num 1, Num 0.5] [Num 1] [Num 0.1] (Num 7)),
         signature = ''c2lnbmF0dXJl''\<rparr>))) =
   object_hash (as_object
        \<lparr>prevState = [Num 0, Num 0], nextState = [Num 1, Num 0.5], input = [Num 1],
         output = [Num 0.1], timestamp = Num 7,
         hash = hashState demo_env
                  (transitionData [Num 0, Num 0] [Num 1, Num 0.5] [Num 1] [Num 0.1] (Num 7)),
         signature = ''c2lnbmF0dXJl''\<rparr>) \<and>
   \<not> verifyTransition demo_env demo_model (as_object
        \<lparr>prevState = [Num 0, Num 0], nextState = [Num 1, Num 0.5], input = [Num 1],
         output = [Num 0.1], timestamp = Num 7,
         hash = hashState demo_env
                  (transitionData [Num 0, Num 0] [Num 1, Num 0.5] [Num 1] [Num 0.1] (Num 7)),
         signature = ''c2lnbmF0dXJl''\<rparr>)"
proof -
  have r: "rejects_key_pair demo_env (keyPair demo_model)"
    by (rule demo_env_rejects_key_pair)
  from verifyTransition_rejects_every_record [OF r] r show ?thesis
    by (simp add: as_object_def transitionData_def)
qed

section \<open>Numbers that are not finite\<close>

text \<open>A sum or a product with a slot that holds no finite number holds no finite
  number, so one such slot in a vector reaches every entry of a matrix-vector product
  whose rows are as long as the vector.\<close>

lemma js_mul_not_finite: "not_finite b \<Longrightarrow> not_finite (js_mul a b)"
  by (cases a; cases b) auto

lemma js_add_not_finite: "not_finite a \<or> not_finite b \<Longrightarrow> not_finite (js_add a b)"
  by (cases a; cases b) auto

lemma foldl_js_add_not_finite:
  "not_finite acc \<or> (\<exists>x\<in>set xs. not_finite x) \<Longrightarrow> not_finite (foldl js_add acc xs)"
proof (induction xs arbitrary: acc)
  case Nil
  then show ?case by simp
next
  case (Cons x xs)
  show ?case
  proof (cases "not_finite acc \<or> not_finite x")
    case True
    then have "not_finite (js_add acc x)" by (rule js_add_not_finite)
    then show ?thesis using Cons.IH [of "js_add acc x"] by simp
  next
    case False
    with Cons.prems have "\<exists>y\<in>set xs. not_finite y" by auto
    then show ?thesis using Cons.IH [of "js_add acc x"] by simp
  qed
qed

lemma dot_not_finite:
  assumes "length row = length v" and "\<exists>x\<in>set v. not_finite x"
  shows "not_finite (dot row v)"
proof -
  from assms(2) obtain i where i: "i < length v" and nf: "not_finite (v ! i)"
    by (auto simp: in_set_conv_nth)
  have "map2 js_mul row v ! i = js_mul (row ! i) (v ! i)"
    using i assms(1) by simp
  moreover have "i < length (map2 js_mul row v)"
    using i assms(1) by simp
  ultimately have "js_mul (row ! i) (v ! i) \<in> set (map2 js_mul row v)"
    by (metis nth_mem)
  with nf have "\<exists>x\<in>set (map2 js_mul row v). not_finite x"
    using js_mul_not_finite by blast
  then show ?thesis
    unfolding dot_def by (simp add: foldl_js_add_not_finite)
qed

lemma mat_vec_not_finite:
  assumes "has_shape M r (int (length v))" and "\<exists>x\<in>set v. not_finite x"
  shows "list_all not_finite (mat_vec M v)"
  using assms
  by (auto simp: has_shape_def mat_vec_def list_all_iff intro!: dot_not_finite)

lemma vec_add_not_finite:
  assumes "list_all not_finite a \<or> list_all not_finite b"
  shows "list_all not_finite (vec_add a b)"
proof -
  have "not_finite (js_add x y)" if "(x, y) \<in> set (zip a b)" for x y
  proof -
    from that have "x \<in> set a" and "y \<in> set b"
      by (auto dest: set_zip_leftD set_zip_rightD)
    with assms have "not_finite x \<or> not_finite y"
      by (auto simp: list_all_iff)
    then show ?thesis by (rule js_add_not_finite)
  qed
  then show ?thesis
    by (auto simp: vec_add_def list_all_iff)
qed

lemma affine_step_not_finite:
  assumes "has_shape M r (int (length x))" and "has_shape N r (int (length u))"
    and "\<exists>y\<in>set u \<union> set x. not_finite y"
  shows "list_all not_finite (vec_add (mat_vec M x) (mat_vec N u))"
proof -
  from assms(3) have "(\<exists>y\<in>set x. not_finite y) \<or> (\<exists>y\<in>set u. not_finite y)"
    by blast
  then have "list_all not_finite (mat_vec M x) \<or> list_all not_finite (mat_vec N u)"
    using mat_vec_not_finite [OF assms(1)] mat_vec_not_finite [OF assms(2)] by blast
  then show ?thesis by (rule vec_add_not_finite)
qed

lemma json_of_array_not_finite:
  "list_all not_finite xs \<Longrightarrow> json_of_array xs = JArray (replicate (length xs) JNull)"
proof -
  have "not_finite x \<Longrightarrow> json_of_number x = JNull" for x
    by (cases x) (simp_all add: json_of_number_def)
  then show "list_all not_finite xs \<Longrightarrow> json_of_array xs = JArray (replicate (length xs) JNull)"
    by (induction xs) (simp_all add: json_of_array_def)
qed

lemma spec_output_length:
  "well_shaped (config m) \<Longrightarrow> int (length (currentState m)) = stateSize (config m) \<Longrightarrow>
   int (length inp) = inputSize (config m) \<Longrightarrow>
   int (length (spec_output m inp)) = outputSize (config m)"
  by (simp add: spec_output_def vec_add_def mat_vec_def well_shaped_def has_shape_def)

text \<open>
  C9, as the code has it. \<open>transition\<close> checks the length of the input only. For every
  model with the shapes of the data model and a state vector of stateSize entries, and
  every input of length inputSize, when the input or the state holds a slot that is
  no finite number: the call makes \<open>A\<cdot>currentState + B\<cdot>input\<close> the state of the model,
  no entry of the new state and of the output is a finite number, and the result is
  the exception of the signing call or a record with these vectors whose hash is the
  hash of the JSON text of the data, where \<^verbatim>\<open>null\<close> stands for every entry of the next
  state and of the output. No result is a serialization error.
\<close>

theorem transition_propagates_non_finite_numbers:
  assumes "well_shaped (config m)"
    and "int (length (currentState m)) = stateSize (config m)"
    and "int (length inp) = inputSize (config m)"
    and "\<exists>x\<in>set inp \<union> set (currentState m). not_finite x"
  shows "snd (transition env now m inp) = m\<lparr>currentState := spec_nextState m inp\<rparr> \<and>
         list_all not_finite (getState (snd (transition env now m inp))) \<and>
         list_all not_finite (spec_output m inp) \<and>
         (fst (transition env now m inp) = Inl CryptoError \<or>
          (\<exists>sg. fst (transition env now m inp) =
             Inr \<lparr>prevState = currentState m,
                  nextState = spec_nextState m inp,
                  input = inp,
                  output = spec_output m inp,
                  timestamp = Num (of_int now),
                  hash =
                    sha256_hex env
                      (JSON_stringify (numberToString env)
                         (JObject
                            [(''prevState'', json_of_array (currentState m)),
                             (''nextState'', JArray (replicate (nat (stateSize (config m))) JNull)),
                             (''input'', json_of_array inp),
                             (''output'', JArray (replicate (nat (outputSize (config m))) JNull)),
                             (''timestamp'', JNumber (of_int now))])),
                  signature = sg\<rparr>))"
proof -
  note res = transition_state_and_result [OF assms(1-3), of env now]
  have shapes: "has_shape (A (config m)) (stateSize (config m)) (int (length (currentState m)))"
    "has_shape (B (config m)) (stateSize (config m)) (int (length inp))"
    "has_shape (C (config m)) (outputSize (config m)) (int (length (currentState m)))"
    "has_shape (D (config m)) (outputSize (config m)) (int (length inp))"
    using assms(1-3) by (simp_all add: well_shaped_def)
  have nx: "list_all not_finite (spec_nextState m inp)"
    unfolding spec_nextState_def by (rule affine_step_not_finite [OF shapes(1,2) assms(4)])
  have ou: "list_all not_finite (spec_output m inp)"
    unfolding spec_output_def by (rule affine_step_not_finite [OF shapes(3,4) assms(4)])
  have ln: "length (spec_nextState m inp) = nat (stateSize (config m))"
    using spec_nextState_length [OF assms(1), of inp] by simp
  have lo: "length (spec_output m inp) = nat (outputSize (config m))"
    using spec_output_length [OF assms(1-3)] by simp
  have h: "hashState env (transitionData (currentState m) (spec_nextState m inp) inp
             (spec_output m inp) (Num (of_int now))) =
           sha256_hex env
             (JSON_stringify (numberToString env)
                (JObject
                   [(''prevState'', json_of_array (currentState m)),
                    (''nextState'', JArray (replicate (nat (stateSize (config m))) JNull)),
                    (''input'', json_of_array inp),
                    (''output'', JArray (replicate (nat (outputSize (config m))) JNull)),
                    (''timestamp'', JNumber (of_int now))]))"
    unfolding hashState_def transitionData_def transitionData_properties_def
      json_of_array_not_finite [OF nx] json_of_array_not_finite [OF ou] ln lo
    by (simp add: json_property_def json_of_number_def)
  have a: "snd (transition env now m inp) = m\<lparr>currentState := spec_nextState m inp\<rparr>"
    using res by blast
  have b: "list_all not_finite (getState (snd (transition env now m inp)))"
    unfolding a getState_def using nx by simp
  from res [THEN conjunct2, unfolded h] a b ou show ?thesis
    by blast
qed

text \<open>The default model and the input \<open>[NaN]\<close>.\<close>

theorem transition_propagates_non_finite_numbers_witness:
  "well_shaped (config demo_model) \<and>
   int (length (currentState demo_model)) = stateSize (config demo_model) \<and>
   int (length [NaN]) = inputSize (config demo_model) \<and>
   (\<exists>x\<in>set [NaN] \<union> set (currentState demo_model). not_finite x) \<and>
   snd (transition demo_env 7 demo_model [NaN]) = demo_model\<lparr>currentState := [NaN, NaN]\<rparr> \<and>
   list_all not_finite (getState (snd (transition demo_env 7 demo_model [NaN])))"
proof -
  note shape = demo_model_shape [of NaN]
  have nf: "\<exists>x\<in>set [NaN] \<union> set (currentState demo_model). not_finite x"
    by simp
  have nx: "spec_nextState demo_model [NaN] = [NaN, NaN]"
    unfolding demo_model_def by (rule default_step_nan [THEN conjunct1])
  from transition_propagates_non_finite_numbers [OF shape [THEN conjunct1]
      shape [THEN conjunct2, THEN conjunct1] shape [THEN conjunct2, THEN conjunct2] nf,
      of demo_env 7, unfolded nx] shape nf
  show ?thesis
    by blast
qed

text \<open>
  C9 as stated asks for a SerializationError. The call \<^verbatim>\<open>transition([NaN])\<close> on the default
  model stores \<open>[NaN, NaN]\<close> as the state and ends as the call \<^verbatim>\<open>transition([1])\<close> ends,
  with the exception of the signing call; the text that has been hashed by then (the
  hash of this runtime is the text itself) holds \<^verbatim>\<open>null\<close> for every NaN.
\<close>

theorem transition_stores_nan:
  \<open>transition demo_env 7 demo_model [NaN] =
     (Inl CryptoError, demo_model\<lparr>currentState := [NaN, NaN]\<rparr>) \<and>
   transition demo_env 7 demo_model [Num 1] =
     (Inl CryptoError, demo_model\<lparr>currentState := [Num 1, Num 0.5]\<rparr>) \<and>
   hashState demo_env (transitionData [Num 0, Num 0] [NaN, NaN] [NaN] [NaN] (Num 7)) =
     ''{"prevState":[0,0],"nextState":[null,null],"input":[null],"output":[null],"timestamp":7}''\<close>
proof -
  have t: \<open>hashState demo_env (transitionData [Num 0, Num 0] [NaN, NaN] [NaN] [NaN] (Num 7)) =
     ''{"prevState":[0,0],"nextState":[null,null],"input":[null],"output":[null],"timestamp":7}''\<close>
    by (simp add: hashState_def transitionData_def transitionData_properties_def demo_env_def
        json_of_array_def json_of_number_def json_property_def JSON_quote_def JSON_escape_char_def
        Number_toString_def show_int_def show_nat.simps digit_char_def)
  from demo_nan_step [of 7] demo_first_step [of 7] t show ?thesis
    by blast
qed

text \<open>The hash of a record does not tell one non-finite number from another: NaN and
  the infinities are all written \<^verbatim>\<open>null\<close>.\<close>

lemma hash_does_not_tell_non_finite_numbers_apart:
  "hashState env (transitionData prev next inp [NaN] ts) =
   hashState env (transitionData prev next inp [PosInf] ts)"
  by (simp add: hashState_def transitionData_def transitionData_properties_def json_of_array_def
      json_of_number_def)

section \<open>The audit chain under a clock that increases\<close>

text \<open>When every call reads a clock value greater than all before it, and the hash is
  never the empty text, the row with the greatest \<^verbatim>\<open>created_at\<close> is the last row, and
  the entries appended to the empty log form a linked chain.\<close>

lemma last_row_when_clock_increases:
  "rows \<noteq> [] \<Longrightarrow> sorted_wrt (<) (map created_at rows) \<Longrightarrow>
   order_by_created_at_desc_limit_1 rows = Some (last rows)"
proof (induction rows)
  case Nil
  then show ?case by simp
next
  case (Cons r rows)
  show ?case
  proof (cases "rows = []")
    case True
    then show ?thesis by simp
  next
    case False
    with Cons have "order_by_created_at_desc_limit_1 rows = Some (last rows)" by simp
    moreover from Cons.prems False have "created_at r < created_at (last rows)" by simp
    ultimately show ?thesis using False by simp
  qed
qed

lemma chain_linked_snoc:
  "chain_linked rows \<Longrightarrow> rows \<noteq> [] \<Longrightarrow> prev_log_hash e = Some (event_hash (last rows)) \<Longrightarrow>
   chain_linked (rows @ [e])"
  by (induction rows rule: chain_linked.induct) auto

lemma logAuditEvent_keeps_chain:
  assumes nonempty: "\<And>s. sha256_hex env s \<noteq> []"
    and inv: "sorted_wrt (<) (map created_at (audit_logs db))" "chain_linked (audit_logs db)"
      "list_all (\<lambda>r. event_hash r \<noteq> []) (audit_logs db)"
    and later: "\<And>r. r \<in> set (audit_logs db) \<Longrightarrow> created_at r < now"
  shows "sorted_wrt (<) (map created_at (audit_logs (logAuditEvent env now eventType eventData db))) \<and>
         chain_linked (audit_logs (logAuditEvent env now eventType eventData db)) \<and>
         list_all (\<lambda>r. event_hash r \<noteq> []) (audit_logs (logAuditEvent env now eventType eventData db))"
proof (cases "audit_logs db = []")
  case True
  then show ?thesis
    by (simp add: logAuditEvent_def createAuditLog_def Let_def eventHash_def nonempty)
next
  case False
  then have lastrow: "order_by_created_at_desc_limit_1 (audit_logs db) = Some (last (audit_logs db))"
    using inv(1) by (rule last_row_when_clock_increases)
  from False inv(3) have ne: "event_hash (last (audit_logs db)) \<noteq> []"
    by (simp add: list_all_iff)
  have prev: "getLastAuditLogHash db = Some (event_hash (last (audit_logs db)))"
    by (simp add: getLastAuditLogHash_def lastrow ne)
  have srt: "sorted_wrt (<) (map created_at (audit_logs db) @ [now])"
    using inv(1) later by (auto simp: sorted_wrt_append)
  show ?thesis
    using inv(2,3) False srt
    by (simp add: logAuditEvent_def createAuditLog_def Let_def prev eventHash_def nonempty
        chain_linked_snoc)
qed


lemma logAuditEvent_rows:
  "\<exists>e. audit_logs (logAuditEvent env now eventType eventData db) = audit_logs db @ [e] \<and>
       created_at e = now"
  by (simp add: logAuditEvent_def createAuditLog_def Let_def)

lemma log_events_keeps_chain:
  assumes nonempty: "\<And>s. sha256_hex env s \<noteq> []"
  shows "sorted_wrt (<) (map created_at (audit_logs db)) \<Longrightarrow>
         chain_linked (audit_logs db) \<Longrightarrow>
         list_all (\<lambda>r. event_hash r \<noteq> []) (audit_logs db) \<Longrightarrow>
         sorted_wrt (<) (map fst evs) \<Longrightarrow>
         (\<And>r ev. r \<in> set (audit_logs db) \<Longrightarrow> ev \<in> set evs \<Longrightarrow> created_at r < fst ev) \<Longrightarrow>
         chain_linked (audit_logs (log_events env db evs))"
proof (induction evs arbitrary: db)
  case Nil
  then show ?case by simp
next
  case (Cons ev evs)
  let ?db = "logAuditEvent env (fst ev) (fst (snd ev)) (snd (snd ev)) db"
  have later: "\<And>r. r \<in> set (audit_logs db) \<Longrightarrow> created_at r < fst ev"
    using Cons.prems(5) by simp
  from logAuditEvent_keeps_chain [OF nonempty Cons.prems(1,2,3) later]
  have s: "sorted_wrt (<) (map created_at (audit_logs ?db))"
    and c: "chain_linked (audit_logs ?db)"
    and h: "list_all (\<lambda>r. event_hash r \<noteq> []) (audit_logs ?db)"
    by blast+
  from logAuditEvent_rows obtain e where
    rows: "audit_logs ?db = audit_logs db @ [e]" and at: "created_at e = fst ev"
    by blast
  have srt: "sorted_wrt (<) (map fst evs)"
    using Cons.prems(4) by simp
  have before: "created_at r < fst ev'" if "r \<in> set (audit_logs ?db)" and "ev' \<in> set evs" for r ev'
  proof (cases "r \<in> set (audit_logs db)")
    case True
    with that(2) show ?thesis using Cons.prems(5) [of r ev'] by simp
  next
    case False
    with that(1) rows have "r = e" by simp
    with at that(2) Cons.prems(4) show ?thesis by simp
  qed
  from Cons.IH [OF s c h srt before] show ?case
    by simp
qed

lemma audit_chain_linked_when_clock_increases:
  assumes "\<And>s. sha256_hex env s \<noteq> []" and "sorted_wrt (<) (map fst evs)"
  shows "chain_linked (audit_logs (log_events env empty_database evs))"
  using log_events_keeps_chain [OF assms(1), of empty_database evs] assms(2)
  by (simp add: empty_database_def)

end
